theory Spec2Isabelle
  imports Complex_Main
begin

section \<open>Hardware classes of rpilot.core.hardware\<close>

text \<open>
  The classes of \<^verbatim>\<open>rpilot/core/hardware.py\<close> (Python 2) as HOL functions. An object is a
  record of its attributes, a method takes the object and returns the updated one, and
  an exception that reaches the caller is a value of \<open>py_error\<close>. The calls an object
  makes on its collaborators (the pigpio daemon, the messaging node, \<open>time.sleep\<close>) are
  kept as fields of the record or as a trace, in the order the code makes them.
\<close>

datatype py_error =
    KeyError | IndexError | TypeError | AttributeError
  | UnboundLocalError | ZeroDivisionError | IOError | PigpioError
  | OverflowError | StructError

subsection \<open>Floats\<close>

text \<open>
  A Python float is an IEEE double, and each operation on floats gives the double nearest
  to the exact result, a tie going to the even mantissa. A double is taken as the real it
  stands for, and \<open>fl\<close> is that rounding: \<open>binade x\<close> is the exponent \<open>e\<close> with
  \<open>2^e \<le> \<bar>x\<bar> < 2^(e+1)\<close>, kept within -1022 and 1023 (below \<open>2^-1022\<close> lie the
  subnormal numbers, which share the spacing \<open>2^-1074\<close>), and the doubles of a binade are
  the multiples of \<open>2^(e-52)\<close>. A result of \<open>2^1024\<close> or more is Python's \<^verbatim>\<open>inf\<close>:
  \<open>finite_double\<close> says that it is not reached. The arithmetic of \<^verbatim>\<open>flash\<close>,
  \<^verbatim>\<open>calc_move\<close> and \<^verbatim>\<open>check_thresh\<close> is rounded with \<open>fl\<close>; clock readings and the
  lengths of sleeps are taken as reals.
\<close>

definition pow2 :: "int \<Rightarrow> real" where
  "pow2 e = (if 0 \<le> e then 2 ^ nat e else 1 / 2 ^ nat (- e))"

function binade_up :: "real \<Rightarrow> int \<Rightarrow> int" where
  "binade_up x e = (if x < 2 \<or> 1023 \<le> e then e else binade_up (x / 2) (e + 1))"
  by pat_completeness auto
termination
  by (relation "measure (\<lambda>(x, e). nat (1023 - e))") auto

function binade_down :: "real \<Rightarrow> int \<Rightarrow> int" where
  "binade_down x e = (if 1 \<le> x \<or> e \<le> - 1022 then e else binade_down (2 * x) (e - 1))"
  by pat_completeness auto
termination
  by (relation "measure (\<lambda>(x, e). nat (e + 1022))") auto

definition binade :: "real \<Rightarrow> int" where
  "binade x = (if 1 \<le> \<bar>x\<bar> then binade_up \<bar>x\<bar> 0 else binade_down \<bar>x\<bar> 0)"

definition round_even :: "real \<Rightarrow> int" where
  "round_even y =
    (let n = \<lfloor>y\<rfloor>; r = y - of_int n
     in if r < 1 / 2 then n
        else if 1 / 2 < r then n + 1
        else if even n then n else n + 1)"

definition fl :: "real \<Rightarrow> real" where
  "fl x = (if x = 0 then 0
           else (let u = pow2 (binade x - 52) in of_int (round_even (x / u)) * u))"

definition finite_double :: "real \<Rightarrow> bool" where
  "finite_double x = (\<bar>x\<bar> < 2 ^ 1024)"

subsection \<open>Pin numbering\<close>

text \<open>
  \<^verbatim>\<open>BOARD_TO_BCM\<close> is a dict literal; \<open>BOARD_TO_BCM_items\<close> lists its entries in the order
  of the literal. A dict built from a list of pairs keeps the last pair of a repeated key,
  where \<open>map_of\<close> keeps the first: hence the \<open>rev\<close> in \<open>dict_of\<close>.
\<close>

definition BOARD_TO_BCM_items :: "(nat \<times> nat) list" where
  "BOARD_TO_BCM_items =
    [( 3,  2), ( 5,  3), ( 7,  4), ( 8, 14), (10, 15),
     (11, 17), (12, 18), (13, 27), (15, 22), (16, 23),
     (18, 24), (19, 10), (21,  9), (22, 25), (23, 11),
     (24,  8), (26,  7), (29,  5), (31,  6), (32, 12),
     (33, 13), (35, 19), (36, 16), (37, 26), (38, 20),
     (40, 21)]"

definition dict_of :: "('k \<times> 'v) list \<Rightarrow> ('k \<rightharpoonup> 'v)" where
  "dict_of kvs = map_of (rev kvs)"

definition BOARD_TO_BCM :: "nat \<rightharpoonup> nat" where
  "BOARD_TO_BCM = dict_of BOARD_TO_BCM_items"

text \<open>\<^verbatim>\<open>BCM_TO_BOARD = dict([reversed(i) for i in BOARD_TO_BCM.items()])\<close>\<close>

definition BCM_TO_BOARD :: "nat \<rightharpoonup> nat" where
  "BCM_TO_BOARD = dict_of (map (\<lambda>(k, v). (v, k)) BOARD_TO_BCM_items)"

subsection \<open>threading.Event\<close>

text \<open>
  An Event holds one flag. The class defines \<^verbatim>\<open>is_set\<close>, \<^verbatim>\<open>set\<close>, \<^verbatim>\<open>clear\<close> and
  \<^verbatim>\<open>wait\<close>, and neither \<^verbatim>\<open>__nonzero__\<close> nor \<^verbatim>\<open>__len__\<close>: used as a condition
  (\<^verbatim>\<open>if evt:\<close>, \<^verbatim>\<open>while evt:\<close>) the object is true whatever its flag. \<open>Event_truth\<close> is
  that test.
\<close>

record Event =
  flag :: bool

definition Event_new :: Event where
  "Event_new = \<lparr>flag = False\<rparr>"

definition is_set :: "Event \<Rightarrow> bool" where
  "is_set e = flag e"

definition Event_set :: "Event \<Rightarrow> Event" where
  "Event_set e = e\<lparr>flag := True\<rparr>"

definition Event_clear :: "Event \<Rightarrow> Event" where
  "Event_clear e = e\<lparr>flag := False\<rparr>"

definition Event_truth :: "Event \<Rightarrow> bool" where
  "Event_truth e = True"

subsection \<open>Beambreak\<close>

datatype edge = RISING_EDGE | FALLING_EDGE | EITHER_EDGE

datatype pull = PUD_UP | PUD_DOWN

definition TRIGGER_MAP :: "string \<rightharpoonup> edge" where
  "TRIGGER_MAP = [''U'' \<mapsto> RISING_EDGE, ''D'' \<mapsto> FALLING_EDGE, ''B'' \<mapsto> EITHER_EDGE]"

definition PULL_MAP :: "string \<rightharpoonup> pull" where
  "PULL_MAP = [''U'' \<mapsto> PUD_UP, ''D'' \<mapsto> PUD_DOWN]"

text \<open>
  What a callback registered with the daemon calls: the caller's function, or the
  \<^verbatim>\<open>set\<close> method of the device's own event.
\<close>

datatype 'f callback_fn = Fn 'f | Event_set_method

text \<open>
  The handle \<^verbatim>\<open>pig.callback(pin, edge, fn)\<close> returns. \<open>cb_id\<close> stands for the identity of
  the Python object.
\<close>

record 'f callback =
  cb_id :: nat
  cb_pin :: nat
  cb_edge :: edge
  cb_fn :: "'f callback_fn"

text \<open>
  \<open>bb_pull_ud\<close> and \<open>bb_trigger_ud\<close> are \<open>None\<close> when the attribute was never assigned:
  the constructor catches the \<^verbatim>\<open>KeyError\<close> of an unknown direction, builds an
  \<^verbatim>\<open>Exception\<close> and does not raise it. \<open>pig_callbacks\<close> are the callbacks the daemon
  holds for this connection, the live ones; \<open>pig_next\<close> numbers the handles.
\<close>

record 'f Beambreak =
  bb_pin :: nat
  bb_pull_ud :: "pull option"
  bb_trigger_ud :: "edge option"
  bb_event :: "Event option"
  bb_callbacks :: "'f callback list"
  pig_callbacks :: "'f callback list"
  pig_next :: nat

definition Beambreak_init ::
  "nat \<Rightarrow> string \<Rightarrow> string \<Rightarrow> Event option \<Rightarrow> py_error + 'f Beambreak" where
  "Beambreak_init pin pull_ud trigger_ud event =
    (case BOARD_TO_BCM pin of
       None \<Rightarrow> Inl KeyError
     | Some bcm \<Rightarrow>
        (case PULL_MAP pull_ud of
           None \<Rightarrow> Inl AttributeError
         | Some pud \<Rightarrow>
            Inr \<lparr>bb_pin = bcm, bb_pull_ud = Some pud,
                 bb_trigger_ud = TRIGGER_MAP trigger_ud, bb_event = event,
                 bb_callbacks = [], pig_callbacks = [], pig_next = 0\<rparr>))"

text \<open>\<^verbatim>\<open>cb.cancel()\<close>: the daemon drops the handle; a handle it no longer holds is no error.\<close>

definition cancel :: "'f callback \<Rightarrow> 'f callback list \<Rightarrow> 'f callback list" where
  "cancel cb live = filter (\<lambda>c. cb_id c \<noteq> cb_id cb) live"

definition clear_cb :: "'f Beambreak \<Rightarrow> 'f Beambreak" where
  "clear_cb self =
    self\<lparr>pig_callbacks := fold cancel (bb_callbacks self) (pig_callbacks self),
         bb_callbacks := []\<rparr>"

text \<open>\<^verbatim>\<open>cb = self.pig.callback(self.pin, trigger_ud, fn); self.callbacks.append(cb)\<close>\<close>

definition register_cb :: "edge \<Rightarrow> 'f callback_fn \<Rightarrow> 'f Beambreak \<Rightarrow> 'f Beambreak" where
  "register_cb trigger_ud fn self =
    (let cb = \<lparr>cb_id = pig_next self, cb_pin = bb_pin self,
               cb_edge = trigger_ud, cb_fn = fn\<rparr>
     in self\<lparr>pig_callbacks := pig_callbacks self @ [cb],
             pig_next := Suc (pig_next self),
             bb_callbacks := bb_callbacks self @ [cb]\<rparr>)"

text \<open>
  \<^verbatim>\<open>assign_cb(callback_fn, add=False, evented=False, manual_trigger=None)\<close>. The branch
  \<^verbatim>\<open>elif evented and not self.event\<close> builds an \<^verbatim>\<open>Exception\<close> and drops it, so it changes
  nothing and the method goes on. An empty \<open>manual_trigger\<close> string is false, like
  \<^verbatim>\<open>None\<close>.
\<close>

definition assign_cb ::
  "'f Beambreak \<Rightarrow> 'f \<Rightarrow> bool \<Rightarrow> bool \<Rightarrow> string option \<Rightarrow> py_error + 'f Beambreak" where
  "assign_cb self callback_fn add evented manual_trigger =
    (let s1 = (if \<not> add then clear_cb self else self);
         trig = (if manual_trigger = None \<or> manual_trigger = Some []
                 then (case bb_trigger_ud s1 of
                         None \<Rightarrow> Inl AttributeError | Some e \<Rightarrow> Inr e)
                 else (case TRIGGER_MAP (the manual_trigger) of
                         None \<Rightarrow> Inl KeyError | Some e \<Rightarrow> Inr e))
     in case trig of
          Inl err \<Rightarrow> Inl err
        | Inr trigger_ud \<Rightarrow>
           (let s2 = (if evented \<and> bb_event s1 \<noteq> None
                      then register_cb trigger_ud Event_set_method s1
                      else s1)
            in Inr (register_cb trigger_ud (Fn callback_fn) s2)))"

subsection \<open>Solenoid\<close>

text \<open>
  The argument of \<^verbatim>\<open>open\<close> is any Python value: \<^verbatim>\<open>None\<close>, a number, or another object
  (a string, a list, ...) that \<^verbatim>\<open>float()\<close> refuses; \<open>PyObj\<close> carries the truth value
  of that object. A string that \<^verbatim>\<open>float()\<close> accepts stands here as its number, apart from
  its truth value.
\<close>

datatype py_value = PyNone | PyNum real | PyObj bool

fun truthy :: "py_value \<Rightarrow> bool" where
  "truthy PyNone = False"
| "truthy (PyNum x) = (x \<noteq> 0)"
| "truthy (PyObj t) = t"

fun py_float :: "py_value \<Rightarrow> py_error + real" where
  "py_float (PyNum x) = Inr x"
| "py_float PyNone = Inl TypeError"
| "py_float (PyObj t) = Inl TypeError"

text \<open>
  What a call does to the world, in order: \<^verbatim>\<open>pig.write(pin, level)\<close> and
  \<^verbatim>\<open>time.sleep(seconds)\<close>. \<^verbatim>\<open>time.sleep\<close> raises on a negative length (\<^verbatim>\<open>IOError\<close> in
  Python 2) and does not sleep.
\<close>

datatype effect = Write nat nat | Sleep real

record Solenoid =
  sol_pin :: nat
  sol_duration :: real

text \<open>\<^verbatim>\<open>__init__(pin, duration=100)\<close>: the duration comes in milliseconds and is kept in seconds.\<close>

definition Solenoid_init :: "nat \<Rightarrow> real \<Rightarrow> py_error + Solenoid" where
  "Solenoid_init pin duration =
    (case BOARD_TO_BCM pin of
       None \<Rightarrow> Inl KeyError
     | Some bcm \<Rightarrow> Inr \<lparr>sol_pin = bcm, sol_duration = duration / 1000\<rparr>)"

text \<open>
  \<^verbatim>\<open>open(duration=None)\<close>, named \<open>Solenoid_open\<close> here. The result is the trace of the
  call and the exception that ended it, if any. The \<^verbatim>\<open>Warning(...)\<close> of the
  \<^verbatim>\<open>except\<close> branch is an object that is built and dropped.
\<close>

definition Solenoid_open :: "Solenoid \<Rightarrow> py_value \<Rightarrow> effect list \<times> py_error option" where
  "Solenoid_open self duration =
    (let d = (if truthy duration
              then (case py_float duration of
                      Inr x \<Rightarrow> x
                    | Inl err \<Rightarrow> sol_duration self)
              else sol_duration self)
     in if d < 0
        then ([Write (sol_pin self) 1], Some IOError)
        else ([Write (sol_pin self) 1, Sleep d, Write (sol_pin self) 0], None))"

subsection \<open>LED_RGB\<close>

text \<open>
  A colour is the dict \<^verbatim>\<open>{'r': .., 'g': .., 'b': ..}\<close>, here the triple of its values.
  \<open>led_stored_color\<close> is \<open>None\<close> for the empty dict. \<open>led_pins\<close> holds the BCM pins of the
  three channels; it is \<open>None\<close> for the empty dict a malformed constructor call leaves
  (its \<^verbatim>\<open>Exception\<close> is built and dropped). \<open>led_pwm\<close> is the duty cycle the daemon holds
  for each pin, \<open>led_timers\<close> the delays (seconds) of the \<^verbatim>\<open>threading.Timer\<close>s started, each
  of which calls \<^verbatim>\<open>set_color(col=[0,0,0])\<close> when it fires.
\<close>

type_synonym color = "int \<times> int \<times> int"

record LED_RGB =
  led_common :: string
  led_stored_color :: "color option"
  led_flash_block :: Event
  led_pins :: "(nat \<times> nat \<times> nat) option"
  led_pwm :: "nat \<rightharpoonup> int"
  led_timers :: "real list"

text \<open>
  \<^verbatim>\<open>pig.set_PWM_dutycycle(pin, value)\<close>: pigpio accepts a duty cycle within its range,
  0 to 255, and raises \<^verbatim>\<open>pigpio.error\<close> otherwise.
\<close>

definition set_PWM_dutycycle :: "LED_RGB \<Rightarrow> nat \<Rightarrow> int \<Rightarrow> py_error option \<times> LED_RGB" where
  "set_PWM_dutycycle self pin v =
    (if 0 \<le> v \<and> v \<le> 255
     then (None, self\<lparr>led_pwm := (led_pwm self)(pin \<mapsto> v)\<rparr>)
     else (Some PigpioError, self))"

text \<open>The loop \<^verbatim>\<open>for k, v in color.items(): set_PWM_dutycycle(self.pins[k], ..)\<close>, which
  an exception leaves at the call that raised.\<close>

fun write_pins :: "LED_RGB \<Rightarrow> (nat \<times> int) list \<Rightarrow> py_error option \<times> LED_RGB" where
  "write_pins self [] = (None, self)"
| "write_pins self ((pin, v) # rest) =
    (case set_PWM_dutycycle self pin v of
       (None, self') \<Rightarrow> write_pins self' rest
     | (Some err, self') \<Rightarrow> (Some err, self'))"

text \<open>
  The block "Set PWM dutycycle" of \<^verbatim>\<open>set_color\<close>. The channels are written in the order
  r, g, b; Python 2 leaves the order of \<^verbatim>\<open>color.items()\<close> open, and it shows only
  when two channels share a pin or a write raises. With a \<open>common\<close> that is neither
  \<^verbatim>\<open>'anode'\<close> nor \<^verbatim>\<open>'cathode'\<close> nothing is written.
\<close>

definition apply_color :: "LED_RGB \<Rightarrow> color \<Rightarrow> py_error option \<times> LED_RGB" where
  "apply_color self color =
    (case color of (r, g, b) \<Rightarrow>
      if led_common self = ''anode'' then
        (case led_pins self of
           None \<Rightarrow> (Some KeyError, self)
         | Some (pr, pg, pb) \<Rightarrow>
             write_pins self [(pr, 255 - r), (pg, 255 - g), (pb, 255 - b)])
      else if led_common self = ''cathode'' then
        (case led_pins self of
           None \<Rightarrow> (Some KeyError, self)
         | Some (pr, pg, pb) \<Rightarrow> write_pins self [(pr, r), (pg, g), (pb, b)])
      else (None, self))"

text \<open>
  The block "Unpack input" of \<^verbatim>\<open>set_color\<close>: \<^verbatim>\<open>r and g and b\<close> holds when all three are
  given and none is zero; otherwise \<open>col\<close> is read when it is a list or a tuple (\<open>Some\<close>),
  with an \<^verbatim>\<open>IndexError\<close> when it is shorter than three; otherwise the call returns with
  no colour (\<open>Inr None\<close>).
\<close>

definition unpack_color ::
  "int list option \<Rightarrow> int option \<Rightarrow> int option \<Rightarrow> int option \<Rightarrow> py_error + color option" where
  "unpack_color col r g b =
    (if r \<noteq> None \<and> r \<noteq> Some 0 \<and> g \<noteq> None \<and> g \<noteq> Some 0 \<and> b \<noteq> None \<and> b \<noteq> Some 0
     then Inr (Some (the r, the g, the b))
     else (case col of
             None \<Rightarrow> Inr None
           | Some xs \<Rightarrow>
               if length xs < 3 then Inl IndexError
               else Inr (Some (xs ! 0, xs ! 1, xs ! 2))))"

text \<open>
  \<^verbatim>\<open>set_color(col, r, g, b, timed, stored, internal)\<close>. The result is the exception raised,
  if any, and the object as the call left it.
\<close>

definition set_color ::
  "LED_RGB \<Rightarrow> int list option \<Rightarrow> int option \<Rightarrow> int option \<Rightarrow> int option \<Rightarrow>
   real option \<Rightarrow> bool \<Rightarrow> bool \<Rightarrow> py_error option \<times> LED_RGB" where
  "set_color self col r g b timed stored internal =
    (case (if stored
           then (case led_stored_color self of
                   Some c \<Rightarrow> Inr (Some c, self\<lparr>led_stored_color := None\<rparr>)
                 | None \<Rightarrow> Inr (None, self))
           else (case unpack_color col r g b of
                   Inl err \<Rightarrow> Inl err
                 | Inr c \<Rightarrow> Inr (c, self))) of
       Inl err \<Rightarrow> (Some err, self)
     | Inr (None, s1) \<Rightarrow> (None, s1)
     | Inr (Some color, s1) \<Rightarrow>
         if \<not> internal \<and> \<not> is_set (led_flash_block s1)
         then (None, s1\<lparr>led_stored_color := Some color\<rparr>)
         else (case apply_color s1 color of
                 (Some err, s2) \<Rightarrow> (Some err, s2)
               | (None, s2) \<Rightarrow>
                   if timed \<noteq> None \<and> timed \<noteq> Some 0
                   then (None, s2\<lparr>led_timers := led_timers s2 @ [the timed / 1000]\<rparr>)
                   else (None, s2)))"

text \<open>\<^verbatim>\<open>int(x)\<close> of a float cuts towards zero.\<close>

definition py_int :: "real \<Rightarrow> int" where
  "py_int x = (if 0 \<le> x then \<lfloor>x\<rfloor> else \<lceil>x\<rceil>)"

text \<open>
  The \<open>duration\<close> of a colour series: one number, a list of numbers, or anything else.
\<close>

datatype duration = Scalar real | PerStep "real list" | NoDuration

text \<open>
  \<^verbatim>\<open>flash(duration, frequency, colors)\<close> up to its last line: the result is the pair
  \<^verbatim>\<open>(flashes, single_dur)\<close> it hands to \<^verbatim>\<open>color_series\<close>. \<open>duration\<close> and \<open>frequency\<close>
  are Python numbers, integers or floats; \<^verbatim>\<open>float()\<close> rounds an integer to a double and
  raises \<^verbatim>\<open>OverflowError\<close> for one beyond the doubles. \<open>n_rep_product\<close> is
  \<^verbatim>\<open>float(duration)/1000.*float(frequency)\<close>, a division and a product of doubles, each
  rounded; \<^verbatim>\<open>int()\<close> of an infinite product raises \<^verbatim>\<open>OverflowError\<close>. \<^verbatim>\<open>colors*n_rep\<close>
  is empty for \<^verbatim>\<open>n_rep <= 0\<close>; \<^verbatim>\<open>1./frequency\<close> raises for a zero frequency.
  \<open>single_dur\<close> is \<^verbatim>\<open>(1./frequency)*1000\<close>, again rounded twice; it is taken to be
  finite, which it is for every frequency of \<open>2^-1022\<close> or more.
\<close>

definition n_rep_product :: "real \<Rightarrow> real \<Rightarrow> real" where
  "n_rep_product duration frequency = fl (fl (fl duration / 1000) * fl frequency)"

definition single_dur :: "real \<Rightarrow> real" where
  "single_dur frequency = fl (fl (1 / fl frequency) * 1000)"

definition flash :: "real \<Rightarrow> real \<Rightarrow> int list list \<Rightarrow> py_error + (int list list \<times> duration)" where
  "flash duration frequency colors =
    (if \<not> finite_double (fl duration) \<or> \<not> finite_double (fl frequency)
        \<or> \<not> finite_double (n_rep_product duration frequency)
     then Inl OverflowError
     else
      (let n_rep = py_int (n_rep_product duration frequency);
           flashes = concat (replicate (nat n_rep) colors)
       in if fl frequency = 0 then Inl ZeroDivisionError
          else Inr (flashes, Scalar (single_dur frequency))))"

text \<open>
  The steps \<^verbatim>\<open>threaded_color_series\<close> goes through: each colour with the seconds slept
  after it. \<open>None\<close> is the branch "Dont know how to handle your color series".
\<close>

definition series_steps :: "int list list \<Rightarrow> duration \<Rightarrow> (int list \<times> real) list option" where
  "series_steps colors duration =
    (case duration of
       Scalar d \<Rightarrow> Some (map (\<lambda>c. (c, d / 1000)) colors)
     | PerStep ds \<Rightarrow>
         if length colors = length ds
         then Some (zip colors (map (\<lambda>d. d / 1000) ds))
         else None
     | NoDuration \<Rightarrow> None)"

text \<open>
  A call of \<^verbatim>\<open>set_color\<close> by another thread while the series runs, with \<open>stored\<close> and
  \<open>internal\<close> left at \<^verbatim>\<open>False\<close>. An exception of that call is the other thread's; the
  device is as the call left it. Each such call is taken as one step, between two
  statements of the series thread.
\<close>

record request =
  rq_col :: "int list option"
  rq_r :: "int option"
  rq_g :: "int option"
  rq_b :: "int option"
  rq_timed :: "real option"

definition request_color :: "request \<Rightarrow> LED_RGB \<Rightarrow> LED_RGB" where
  "request_color rq self =
    snd (set_color self (rq_col rq) (rq_r rq) (rq_g rq) (rq_b rq) (rq_timed rq) False False)"

text \<open>
  The loop of \<^verbatim>\<open>threaded_color_series\<close>. The head of \<open>during\<close> lists the requests that
  arrive while the thread sleeps after the step. A negative sleep raises and ends the
  thread, as does an exception of \<^verbatim>\<open>set_color\<close>.
\<close>

fun run_steps ::
  "LED_RGB \<Rightarrow> (int list \<times> real) list \<Rightarrow> request list list \<Rightarrow> py_error option \<times> LED_RGB" where
  "run_steps self [] during = (None, self)"
| "run_steps self ((c, d) # rest) during =
    (case set_color self (Some c) None None None None False True of
       (Some err, s1) \<Rightarrow> (Some err, s1)
     | (None, s1) \<Rightarrow>
         if d < 0 then (Some IOError, s1)
         else run_steps (fold request_color (case during of [] \<Rightarrow> [] | rs # _ \<Rightarrow> rs) s1)
                rest (tl during))"

text \<open>
  \<^verbatim>\<open>threaded_color_series(colors, duration)\<close>, the body of the thread \<^verbatim>\<open>color_series\<close>
  starts. \<open>pre\<close> are the requests that arrive after \<^verbatim>\<open>flash_block.clear()\<close> and before the
  first step.
\<close>

definition threaded_color_series ::
  "LED_RGB \<Rightarrow> int list list \<Rightarrow> duration \<Rightarrow> request list \<Rightarrow> request list list \<Rightarrow>
   py_error option \<times> LED_RGB" where
  "threaded_color_series self colors duration pre during =
    (let s0 = self\<lparr>led_flash_block := Event_clear (led_flash_block self)\<rparr>;
         s1 = fold request_color pre s0
     in case series_steps colors duration of
          None \<Rightarrow> (None, s1)
        | Some steps \<Rightarrow>
           (case run_steps s1 steps during of
              (Some err, s2) \<Rightarrow> (Some err, s2)
            | (None, s2) \<Rightarrow>
                set_color (s2\<lparr>led_flash_block := Event_set (led_flash_block s2)\<rparr>)
                  None None None None None True False))"

subsection \<open>Wheel\<close>

text \<open>
  An event of \<^verbatim>\<open>mouse.read()\<close>, and a row of the array the polling task makes of it
  (\<^verbatim>\<open>MOVE_DTYPE\<close>: vel, dir, timestamp). Velocities, their sums and the squares of the
  sums are unbounded integers here. The source keeps \<open>vel\<close> in 32 bits and the sums and
  squares in numpy's default integer, the C long of 32 or 64 bits: the two agree as long as
  every state lies within 32 bits and every sum within 46340 in size, whose square still
  fits in 32 bits. That is the bound \<open>small_batch\<close> below, which a statement that hangs on
  this arithmetic carries.
\<close>

record raw_event =
  ev_state :: int
  ev_code :: string
  ev_timestamp :: real

record move =
  vel :: int
  dir :: string
  timestamp :: real

definition THRESH_TYPES :: "string list" where
  "THRESH_TYPES = [''dist'', ''x'', ''y'', ''vel'']"

definition MODES :: "string list" where
  "MODES = [''vel_total'', ''steady'', ''dist'', ''timed'']"

text \<open>
  \<^verbatim>\<open>self.thresh_val\<close> is a float, or the array \<^verbatim>\<open>l_measure\<close> stores for the mode
  \<^verbatim>\<open>'steady'\<close>.
\<close>

datatype thresh_value = Acc real | Window "move list"

record telemetry =
  tm_x :: real
  tm_y :: real
  tm_t :: real

text \<open>
  The attributes of a Wheel that the polling task and the listeners use. \<open>wh_pins\<close> is the
  dict of pins, from a label to a BCM pin, in the order of its keys. \<open>wh_triggered\<close> has one
  entry for each call of \<^verbatim>\<open>thresh_trig\<close> that returned: the BCM pins it pulsed with
  \<^verbatim>\<open>pig.gpio_trigger\<close>. \<open>wh_sent\<close> are the values sent with the key \<^verbatim>\<open>'CONTINUOUS'\<close>.
  \<^verbatim>\<open>measure_time\<close>, which is written and never read, the queue and its lock are left out.
\<close>

record Wheel =
  wh_fs :: real
  wh_update_dur :: real
  wh_thresh :: real
  wh_thresh_val :: thresh_value
  wh_thresh_type :: string
  wh_mode :: string
  wh_integrate_dur :: real
  wh_quit_evt :: Event
  wh_measure_evt :: Event
  wh_gpio_trig :: bool
  wh_pins :: "(string \<times> nat) list"
  wh_triggered :: "nat list list"
  wh_sent :: "telemetry list"

fun convert_pins :: "(string \<times> nat) list \<Rightarrow> py_error + (string \<times> nat) list" where
  "convert_pins [] = Inr []"
| "convert_pins ((k, v) # rest) =
    (case BOARD_TO_BCM v of
       None \<Rightarrow> Inl KeyError
     | Some bcm \<Rightarrow>
        (case convert_pins rest of
           Inl err \<Rightarrow> Inl err
         | Inr rest' \<Rightarrow> Inr ((k, bcm) # rest')))"

text \<open>
  \<^verbatim>\<open>__init__(mouse_idx, fs, thresh, thresh_type, start, gpio_trig, pins, mode,
  integrate_dur)\<close>, without the lookup of the mouse and the start of the thread. The check
  of \<open>thresh_type\<close> against \<open>THRESH_TYPES\<close> builds a \<^verbatim>\<open>ValueError\<close> and drops it, so every
  \<open>thresh_type\<close> is stored. \<open>quit_evt\<close> is set and \<open>measure_evt\<close> is not.
\<close>

definition Wheel_init ::
  "real \<Rightarrow> real \<Rightarrow> string \<Rightarrow> bool \<Rightarrow> (string \<times> nat) list option \<Rightarrow> string \<Rightarrow> real \<Rightarrow>
   py_error + Wheel" where
  "Wheel_init fs thresh thresh_type gpio_trig pins mode integrate_dur =
    (if fs = 0 then Inl ZeroDivisionError
     else
      (case (if gpio_trig
             then (case pins of
                     None \<Rightarrow> Inl AttributeError
                   | Some ps \<Rightarrow> convert_pins ps)
             else Inr (case pins of None \<Rightarrow> [] | Some ps \<Rightarrow> ps)) of
         Inl err \<Rightarrow> Inl err
       | Inr ps \<Rightarrow>
          Inr \<lparr>wh_fs = fs, wh_update_dur = 1 / fs, wh_thresh = thresh,
               wh_thresh_val = Acc 0, wh_thresh_type = thresh_type, wh_mode = mode,
               wh_integrate_dur = integrate_dur,
               wh_quit_evt = Event_set Event_new, wh_measure_evt = Event_new,
               wh_gpio_trig = gpio_trig, wh_pins = ps,
               wh_triggered = [], wh_sent = []\<rparr>))"

text \<open>\<^verbatim>\<open>np.sum(move['vel'][move['dir'] == d])\<close>\<close>

definition sum_vel :: "move list \<Rightarrow> string \<Rightarrow> int" where
  "sum_vel ms d = sum_list (map vel (filter (\<lambda>m. dir m = d) ms))"

text \<open>
  \<^verbatim>\<open>calc_move(move, thresh_type=None)\<close>. Only \<^verbatim>\<open>'x'\<close>, \<^verbatim>\<open>'y'\<close> and \<^verbatim>\<open>'dist'\<close> assign
  \<^verbatim>\<open>distance\<close>; with any other \<open>thresh_type\<close> the \<^verbatim>\<open>return distance\<close> raises
  \<^verbatim>\<open>UnboundLocalError\<close>, a \<^verbatim>\<open>NameError\<close>. In the branch \<^verbatim>\<open>'dist'\<close> the two
  \<^verbatim>\<open>float()\<close>, the sum and \<^verbatim>\<open>np.sqrt\<close> each give a double.
\<close>

definition calc_move :: "Wheel \<Rightarrow> move list \<Rightarrow> string option \<Rightarrow> py_error + real" where
  "calc_move self mv thresh_type =
    (let tt = (case thresh_type of None \<Rightarrow> wh_thresh_type self | Some t \<Rightarrow> t)
     in if tt = ''x'' then Inr (real_of_int (sum_vel mv ''REL_X''))
        else if tt = ''y'' then Inr (real_of_int (sum_vel mv ''REL_Y''))
        else if tt = ''dist'' then
          Inr (fl (sqrt (fl (fl (real_of_int ((sum_vel mv ''REL_X'')\<^sup>2))
                             + fl (real_of_int ((sum_vel mv ''REL_Y'')\<^sup>2))))))
        else Inl UnboundLocalError)"

text \<open>
  \<^verbatim>\<open>check_thresh(move)\<close>: the answer \<open>do_trigger\<close> and the object with its \<open>thresh_val\<close>
  updated. In the mode \<^verbatim>\<open>'steady'\<close> the call \<^verbatim>\<open>np.concatenate(self.thresh_val, move)\<close>
  passes the batch as the axis and raises \<^verbatim>\<open>TypeError\<close>; in the mode \<^verbatim>\<open>'dist'\<close> adding a
  number to the array of structured rows raises it too, and \<^verbatim>\<open>self.thresh_val +=
  thresh_update\<close> on a float is an addition of doubles.
\<close>

definition check_thresh :: "Wheel \<Rightarrow> move list \<Rightarrow> py_error + (bool \<times> Wheel)" where
  "check_thresh self mv =
    (if wh_mode self = ''vel_total'' then
       (case calc_move self mv None of
          Inl err \<Rightarrow> Inl err
        | Inr thresh_update \<Rightarrow> Inr (thresh_update > wh_thresh self, self))
     else if wh_mode self = ''steady'' then Inl TypeError
     else if wh_mode self = ''dist'' then
       (case calc_move self mv None of
          Inl err \<Rightarrow> Inl err
        | Inr thresh_update \<Rightarrow>
           (case wh_thresh_val self of
              Window buf \<Rightarrow> Inl TypeError
            | Acc v \<Rightarrow>
                Inr (fl (v + thresh_update) > wh_thresh self,
                     self\<lparr>wh_thresh_val := Acc (fl (v + thresh_update))\<rparr>)))
     else Inr (False, self))"

text \<open>
  \<^verbatim>\<open>thresh_trig(which=None)\<close>. Without \<open>which\<close> the loop runs over the keys of
  \<^verbatim>\<open>self.pins\<close> and hands each key, the label and not its pin, to \<^verbatim>\<open>gpio_trigger\<close>;
  pigpio packs the GPIO number with \<^verbatim>\<open>struct.pack\<close>, which raises \<^verbatim>\<open>struct.error\<close> for
  a label, so the first key ends the call before \<^verbatim>\<open>self.measure_evt.clear()\<close>. With
  \<open>which\<close> the pin \<^verbatim>\<open>self.pins[which]\<close> is pulsed. A call that does not raise ends with
  \<^verbatim>\<open>self.measure_evt.clear()\<close>.
\<close>

definition thresh_trig :: "Wheel \<Rightarrow> string option \<Rightarrow> py_error + Wheel" where
  "thresh_trig self which =
    (case (if which = None \<or> which = Some []
           then (if wh_gpio_trig self \<and> wh_pins self \<noteq> [] then Inl StructError else Inr [])
           else if wh_gpio_trig self
                then (case dict_of (wh_pins self) (the which) of
                        None \<Rightarrow> Inl KeyError
                      | Some p \<Rightarrow> Inr [p])
                else Inr []) of
       Inl err \<Rightarrow> Inl err
     | Inr calls \<Rightarrow>
         Inr (self\<lparr>wh_triggered := wh_triggered self @ [calls],
                   wh_measure_evt := Event_clear (wh_measure_evt self)\<rparr>))"

text \<open>
  \<^verbatim>\<open>l_measure(value)\<close>: \<open>mode\<close> and \<open>thresh\<close> are the entries of \<open>value\<close> under these keys,
  \<open>None\<close> for a missing key; the threshold is a number, which \<^verbatim>\<open>float()\<close> rounds to a
  double.
\<close>

definition l_measure :: "Wheel \<Rightarrow> string option \<Rightarrow> real option \<Rightarrow> Wheel" where
  "l_measure self mode thresh =
    (let s1 = (case mode of
                 None \<Rightarrow> self
               | Some m \<Rightarrow> if m \<in> set MODES then self\<lparr>wh_mode := m\<rparr> else self);
         s2 = (case thresh of None \<Rightarrow> s1 | Some t \<Rightarrow> s1\<lparr>wh_thresh := fl t\<rparr>);
         s3 = s2\<lparr>wh_thresh_val := (if wh_mode s2 = ''steady'' then Window [] else Acc 0)\<rparr>
     in s3\<lparr>wh_measure_evt := Event_set (wh_measure_evt s3)\<rparr>)"

definition l_clear :: "Wheel \<Rightarrow> Wheel" where
  "l_clear self = self\<lparr>wh_measure_evt := Event_clear (wh_measure_evt self)\<rparr>"

definition release :: "Wheel \<Rightarrow> Wheel" where
  "release self = self\<lparr>wh_quit_evt := Event_clear (wh_quit_evt self)\<rparr>"

definition l_stop :: "Wheel \<Rightarrow> Wheel" where
  "l_stop self = release (self\<lparr>wh_measure_evt := Event_clear (wh_measure_evt self)\<rparr>)"

text \<open>The control messages of \<^verbatim>\<open>self.listens\<close>, handled by the thread of the node.\<close>

datatype message = MEASURE "string option" "real option" | CLEAR | STOP

fun listen :: "message \<Rightarrow> Wheel \<Rightarrow> Wheel" where
  "listen (MEASURE mode thresh) self = l_measure self mode thresh"
| "listen CLEAR self = l_clear self"
| "listen STOP self = l_stop self"

text \<open>
  One turn of the loop of \<^verbatim>\<open>_record\<close>, as the world gives it: the messages the node
  handles while the task waits in \<^verbatim>\<open>mouse.read()\<close>, the events the read returns, and the
  value of \<^verbatim>\<open>time.time()\<close> read afterwards.
\<close>

record tick =
  tk_msgs :: "message list"
  tk_events :: "raw_event list"
  tk_now :: real

definition to_moves :: "raw_event list \<Rightarrow> move list" where
  "to_moves events =
    map (\<lambda>e. \<lparr>vel = ev_state e, dir = ev_code e, timestamp = ev_timestamp e\<rparr>)
      (filter (\<lambda>e. ev_code e = ''REL_X'' \<or> ev_code e = ''REL_Y'') events)"

text \<open>
  The body of the loop, after the test of \<^verbatim>\<open>while self.quit_evt\<close>: the object, the
  buffer \<open>moves\<close> and \<open>last_update\<close> after the turn, or the exception that ends the task.
  \<^verbatim>\<open>if self.measure_evt:\<close> tests the object, not its flag.
\<close>

definition record_turn ::
  "Wheel \<Rightarrow> move list \<Rightarrow> real \<Rightarrow> tick \<Rightarrow> py_error + (Wheel \<times> move list \<times> real)" where
  "record_turn self moves last_update t =
    (let s1 = fold listen (tk_msgs t) self;
         mv = to_moves (tk_events t);
         moves1 = moves @ mv
     in case (if Event_truth (wh_measure_evt s1)
              then (case check_thresh s1 mv of
                      Inl err \<Rightarrow> Inl err
                    | Inr (do_trigger, s2) \<Rightarrow>
                        if do_trigger
                        then (case thresh_trig s2 None of
                                Inl err \<Rightarrow> Inl err
                              | Inr s3 \<Rightarrow>
                                  Inr (s3\<lparr>wh_measure_evt := Event_clear (wh_measure_evt s3)\<rparr>))
                        else Inr s2)
              else Inr s1) of
          Inl err \<Rightarrow> Inl err
        | Inr s4 \<Rightarrow>
            if tk_now t - last_update > wh_update_dur s4
            then (case calc_move s4 moves1 (Some ''y'') of
                    Inl err \<Rightarrow> Inl err
                  | Inr y_vel \<Rightarrow>
                     (case calc_move s4 moves1 (Some ''x'') of
                        Inl err \<Rightarrow> Inl err
                      | Inr x_vel \<Rightarrow>
                          Inr (s4\<lparr>wh_sent := wh_sent s4 @
                                    [\<lparr>tm_x = x_vel, tm_y = y_vel, tm_t = tk_now t\<rparr>]\<rparr>,
                               [], tk_now t)))
            else Inr (s4, moves1, last_update))"

text \<open>
  \<^verbatim>\<open>_record\<close>, named \<open>Wheel_record\<close> here, over the turns the world gives. When they are
  used up the task waits in \<^verbatim>\<open>mouse.read()\<close> (\<open>Reading\<close>); \<open>Exited\<close> is the end of the
  \<^verbatim>\<open>while\<close> loop, \<open>Crashed\<close> an exception in the task.
\<close>

datatype outcome = Reading Wheel | Exited Wheel | Crashed py_error

fun Wheel_record :: "Wheel \<Rightarrow> move list \<Rightarrow> real \<Rightarrow> tick list \<Rightarrow> outcome" where
  "Wheel_record self moves last_update [] =
    (if Event_truth (wh_quit_evt self) then Reading self else Exited self)"
| "Wheel_record self moves last_update (t # ts) =
    (if Event_truth (wh_quit_evt self)
     then (case record_turn self moves last_update t of
             Inl err \<Rightarrow> Crashed err
           | Inr (s', moves', last_update') \<Rightarrow> Wheel_record s' moves' last_update' ts)
     else Exited self)"

subsection \<open>What the statements about LED_RGB speak of\<close>

text \<open>
  A colour the daemon accepts has its three values within 0 to 255. \<open>color_of\<close> reads a
  colour of a series as \<^verbatim>\<open>set_color\<close> does. \<open>shows_color\<close>: the three pins hold the duty
  cycles of the colour, inverted for a common anode.

  \<open>requested\<close> is the colour a call of \<^verbatim>\<open>set_color\<close> asks for, by the words of its
  docstring ("Either \<open>col\<close> or all of \<open>r\<close>, \<open>g\<close>, \<open>b\<close> must be provided"): the three values
  \<open>r\<close>, \<open>g\<close>, \<open>b\<close> when all three are passed, else the first three entries of \<open>col\<close> when
  it has them, else none. \<open>last_requested\<close> is the colour of the last request that asks
  for one. The code reads the arguments with \<^verbatim>\<open>if r and g and b\<close>, which takes a channel
  of zero for a missing one; \<open>zero_channel\<close> marks the requests where that differs from
  \<open>requested\<close>. \<open>unpacked\<close> is the colour the code reads, and \<open>stash\<close> what one request
  does to the stashed colour.
\<close>

definition valid_color :: "color \<Rightarrow> bool" where
  "valid_color color = (case color of (r, g, b) \<Rightarrow>
     0 \<le> r \<and> r \<le> 255 \<and> 0 \<le> g \<and> g \<le> 255 \<and> 0 \<le> b \<and> b \<le> 255)"

definition color_of :: "int list \<Rightarrow> color" where
  "color_of xs = (xs ! 0, xs ! 1, xs ! 2)"

definition valid_col :: "int list \<Rightarrow> bool" where
  "valid_col xs = (3 \<le> length xs \<and> valid_color (color_of xs))"

definition shows_color :: "LED_RGB \<Rightarrow> color \<Rightarrow> bool" where
  "shows_color self color =
    (case (led_pins self, color) of
       (None, c) \<Rightarrow> False
     | (Some (pr, pg, pb), (r, g, b)) \<Rightarrow>
         if led_common self = ''anode''
         then led_pwm self pr = Some (255 - r) \<and> led_pwm self pg = Some (255 - g)
              \<and> led_pwm self pb = Some (255 - b)
         else led_common self = ''cathode''
              \<and> led_pwm self pr = Some r \<and> led_pwm self pg = Some g
              \<and> led_pwm self pb = Some b)"

definition requested :: "request \<Rightarrow> color option" where
  "requested rq =
    (case (rq_r rq, rq_g rq, rq_b rq) of
       (Some r, Some g, Some b) \<Rightarrow> Some (r, g, b)
     | _ \<Rightarrow>
        (case rq_col rq of
           None \<Rightarrow> None
         | Some xs \<Rightarrow> if 3 \<le> length xs then Some (xs ! 0, xs ! 1, xs ! 2) else None))"

definition zero_channel :: "request \<Rightarrow> bool" where
  "zero_channel rq =
    (case (rq_r rq, rq_g rq, rq_b rq) of
       (Some r, Some g, Some b) \<Rightarrow> r = 0 \<or> g = 0 \<or> b = 0
     | _ \<Rightarrow> False)"

definition unpacked :: "request \<Rightarrow> color option" where
  "unpacked rq =
    (case unpack_color (rq_col rq) (rq_r rq) (rq_g rq) (rq_b rq) of
       Inl err \<Rightarrow> None
     | Inr c \<Rightarrow> c)"

definition last_requested :: "request list \<Rightarrow> color option" where
  "last_requested rqs =
    (let cs = List.map_filter requested rqs
     in if cs = [] then None else Some (last cs))"

definition stash :: "request \<Rightarrow> color option \<Rightarrow> color option" where
  "stash rq acc = (case unpacked rq of Some c \<Rightarrow> Some c | None \<Rightarrow> acc)"

subsection \<open>What the statements about Wheel speak of\<close>

text \<open>
  \<open>batch_metric\<close> is what \<^verbatim>\<open>calc_move\<close> gives for the batch of a turn, and \<open>acc_total\<close>
  the running total as \<^verbatim>\<open>check_thresh\<close> accumulates it in the mode \<^verbatim>\<open>'dist'\<close>: from the
  value \<open>a\<close>, one addition of doubles for each batch. \<open>small_batch\<close>: every state of the
  batch lies within 32 bits and the sums of the two axes within 46340 in size.
  \<open>same_setup\<close>: two states of a Wheel differ at most in the accumulator, the flag of
  \<open>measure_evt\<close> and what was triggered and sent.
\<close>

definition batch_metric :: "Wheel \<Rightarrow> tick \<Rightarrow> real" where
  "batch_metric self t =
    (case calc_move self (to_moves (tk_events t)) None of
       Inr u \<Rightarrow> u
     | Inl err \<Rightarrow> 0)"

definition acc_total :: "Wheel \<Rightarrow> real \<Rightarrow> tick list \<Rightarrow> real" where
  "acc_total self a ts = fold (\<lambda>t v. fl (v + batch_metric self t)) ts a"

definition small_batch :: "tick \<Rightarrow> bool" where
  "small_batch t =
    (list_all (\<lambda>e. - 2147483648 \<le> ev_state e \<and> ev_state e \<le> 2147483647) (tk_events t)
     \<and> \<bar>sum_vel (to_moves (tk_events t)) ''REL_X''\<bar> \<le> 46340
     \<and> \<bar>sum_vel (to_moves (tk_events t)) ''REL_Y''\<bar> \<le> 46340)"

definition same_setup :: "Wheel \<Rightarrow> Wheel \<Rightarrow> bool" where
  "same_setup s s' =
    (wh_mode s' = wh_mode s \<and> wh_thresh s' = wh_thresh s
     \<and> wh_thresh_type s' = wh_thresh_type s \<and> wh_gpio_trig s' = wh_gpio_trig s
     \<and> wh_pins s' = wh_pins s \<and> wh_quit_evt s' = wh_quit_evt s)"


section \<open>Properties\<close>

subsection \<open>Pin numbering\<close>

lemma BOARD_TO_BCM_cases:
  "BOARD_TO_BCM p = Some b \<Longrightarrow> (p, b) \<in> set BOARD_TO_BCM_items"
  unfolding BOARD_TO_BCM_def dict_of_def
  by (metis map_of_SomeD set_rev)

text \<open>
  C8. Every board pin of \<open>BOARD_TO_BCM\<close> comes back from \<open>BCM_TO_BOARD\<close>: translating
  board to BCM and BCM to board is the identity on the table, and the two tables are
  inverse to each other (the table is a bijection between its keys and its values).
\<close>

theorem BOARD_TO_BCM_roundtrip:
  "(BOARD_TO_BCM p = Some b \<longrightarrow> BCM_TO_BOARD b = Some p) \<and>
   (BCM_TO_BOARD b = Some p \<longrightarrow> BOARD_TO_BCM p = Some b)"
proof
  show "BOARD_TO_BCM p = Some b \<longrightarrow> BCM_TO_BOARD b = Some p"
  proof
    assume "BOARD_TO_BCM p = Some b"
    then have "(p, b) \<in> set BOARD_TO_BCM_items"
      by (rule BOARD_TO_BCM_cases)
    then show "BCM_TO_BOARD b = Some p"
      unfolding BOARD_TO_BCM_items_def BCM_TO_BOARD_def dict_of_def
      by auto
  qed
next
  show "BCM_TO_BOARD b = Some p \<longrightarrow> BOARD_TO_BCM p = Some b"
  proof
    assume "BCM_TO_BOARD b = Some p"
    then have "(b, p) \<in> set (map (\<lambda>(k, v). (v, k)) BOARD_TO_BCM_items)"
      unfolding BCM_TO_BOARD_def dict_of_def
      by (metis map_of_SomeD set_rev)
    then have "(p, b) \<in> set BOARD_TO_BCM_items"
      by auto
    then show "BOARD_TO_BCM p = Some b"
      unfolding BOARD_TO_BCM_items_def BOARD_TO_BCM_def dict_of_def
      by auto
  qed
qed

theorem BOARD_TO_BCM_roundtrip_witness:
  "BOARD_TO_BCM 12 = Some 18 \<and> BCM_TO_BOARD 18 = Some 12"
proof -
  have "BOARD_TO_BCM 12 = Some 18"
    by (simp add: BOARD_TO_BCM_def dict_of_def BOARD_TO_BCM_items_def)
  with BOARD_TO_BCM_roundtrip [of 12 18] show ?thesis
    by simp
qed

subsection \<open>Beambreak\<close>

lemma register_cb_callbacks:
  "bb_callbacks (register_cb e fn self) =
     bb_callbacks self @ [\<lparr>cb_id = pig_next self, cb_pin = bb_pin self, cb_edge = e, cb_fn = fn\<rparr>]"
  by (simp add: register_cb_def Let_def)

lemma register_cb_live:
  "pig_callbacks (register_cb e fn self) =
     pig_callbacks self @ [\<lparr>cb_id = pig_next self, cb_pin = bb_pin self, cb_edge = e, cb_fn = fn\<rparr>]"
  by (simp add: register_cb_def Let_def)

lemma clear_cb_empty: "bb_callbacks (clear_cb self) = []"
  by (simp add: clear_cb_def)

lemma clear_cb_idem: "clear_cb (clear_cb self) = clear_cb self"
  by (simp add: clear_cb_def)

lemma clear_cb_trigger_ud: "bb_trigger_ud (clear_cb self) = bb_trigger_ud self"
  by (simp add: clear_cb_def)

lemma fold_cancel_filter:
  "fold cancel cbs live = filter (\<lambda>c. cb_id c \<notin> cb_id ` set cbs) live"
  by (induction cbs arbitrary: live) (auto simp: cancel_def intro: filter_cong)

lemma fold_cancel_all:
  assumes "set live \<subseteq> set cbs"
  shows "fold cancel cbs live = []"
  unfolding fold_cancel_filter using assms by (auto simp: filter_empty_conv)

text \<open>
  On a device whose trigger direction is set and whose registry holds every callback the
  daemon holds, \<open>clear_cb\<close> followed by \<open>assign_cb fn\<close> returns and leaves one handle,
  which calls \<open>fn\<close>, in the registry and as the only callback of the daemon.
\<close>

lemma clear_cb_assign_cb_only_live:
  assumes "bb_trigger_ud self = Some e"
      and "set (pig_callbacks self) \<subseteq> set (bb_callbacks self)"
  shows "\<exists>self' cb. assign_cb (clear_cb self) fn False False None = Inr self'
           \<and> bb_callbacks self' = [cb] \<and> pig_callbacks self' = [cb]
           \<and> cb_fn cb = Fn fn \<and> cb_edge cb = e"
proof -
  let ?s = "clear_cb self"
  let ?r = "register_cb e (Fn fn) ?s"
  have ret: "assign_cb ?s fn False False None = Inr ?r"
    using assms(1) by (simp add: assign_cb_def clear_cb_idem clear_cb_trigger_ud)
  have none_live: "pig_callbacks ?s = []"
    using fold_cancel_all [OF assms(2)] by (simp add: clear_cb_def)
  have reg: "bb_callbacks ?r =
      [\<lparr>cb_id = pig_next ?s, cb_pin = bb_pin ?s, cb_edge = e, cb_fn = Fn fn\<rparr>]"
    by (simp add: register_cb_callbacks clear_cb_empty)
  have live: "pig_callbacks ?r =
      [\<lparr>cb_id = pig_next ?s, cb_pin = bb_pin ?s, cb_edge = e, cb_fn = Fn fn\<rparr>]"
    by (simp add: register_cb_live none_live)
  from ret reg live show ?thesis
    by simp
qed

text \<open>
  C6. The constructor takes the trigger direction \<^verbatim>\<open>'X'\<close>: it catches the \<^verbatim>\<open>KeyError\<close>,
  builds its \<^verbatim>\<open>Exception\<close> and does not raise it, and \<^verbatim>\<open>self.trigger_ud\<close> stays unset.
  On that device \<open>clear_cb\<close> followed by \<open>assign_cb fn\<close> with the default arguments raises
  \<^verbatim>\<open>AttributeError\<close> and registers nothing: the registry is empty, not of one handle.
\<close>

theorem clear_cb_assign_cb_unset_direction:
  "Beambreak_init 7 ''U'' ''X'' None =
     Inr \<lparr>bb_pin = 4, bb_pull_ud = Some PUD_UP, bb_trigger_ud = None,
          bb_event = None, bb_callbacks = [], pig_callbacks = [], pig_next = 0\<rparr>
   \<and> clear_cb \<lparr>bb_pin = 4, bb_pull_ud = Some PUD_UP, bb_trigger_ud = None,
          bb_event = None, bb_callbacks = [], pig_callbacks = [], pig_next = 0\<rparr> =
       \<lparr>bb_pin = 4, bb_pull_ud = Some PUD_UP, bb_trigger_ud = None,
          bb_event = None, bb_callbacks = [], pig_callbacks = [], pig_next = 0\<rparr>
   \<and> assign_cb \<lparr>bb_pin = 4, bb_pull_ud = Some PUD_UP, bb_trigger_ud = None,
          bb_event = None, bb_callbacks = [], pig_callbacks = [], pig_next = 0\<rparr>
        ''handle_trigger'' False False None = Inl AttributeError"
  by (simp add: Beambreak_init_def BOARD_TO_BCM_def dict_of_def BOARD_TO_BCM_items_def
      PULL_MAP_def TRIGGER_MAP_def assign_cb_def clear_cb_def)

text \<open>
  C9. A device built with \<open>event = None\<close>, asked for \<open>evented = True\<close>: \<open>assign_cb\<close> raises
  nothing. It returns after it has cleared the registry and registered the caller's
  function.
\<close>

theorem assign_cb_evented_no_event_returns:
  "Beambreak_init 7 ''U'' ''D'' None =
     Inr \<lparr>bb_pin = 4, bb_pull_ud = Some PUD_UP, bb_trigger_ud = Some FALLING_EDGE,
          bb_event = None, bb_callbacks = [], pig_callbacks = [], pig_next = 0\<rparr>
   \<and> assign_cb \<lparr>bb_pin = 4, bb_pull_ud = Some PUD_UP, bb_trigger_ud = Some FALLING_EDGE,
          bb_event = None, bb_callbacks = [], pig_callbacks = [], pig_next = 0\<rparr>
        ''handle_trigger'' False True None =
     Inr \<lparr>bb_pin = 4, bb_pull_ud = Some PUD_UP, bb_trigger_ud = Some FALLING_EDGE,
          bb_event = None,
          bb_callbacks = [\<lparr>cb_id = 0, cb_pin = 4, cb_edge = FALLING_EDGE,
                           cb_fn = Fn ''handle_trigger''\<rparr>],
          pig_callbacks = [\<lparr>cb_id = 0, cb_pin = 4, cb_edge = FALLING_EDGE,
                            cb_fn = Fn ''handle_trigger''\<rparr>],
          pig_next = 1\<rparr>"
  by (simp add: Beambreak_init_def BOARD_TO_BCM_def dict_of_def BOARD_TO_BCM_items_def
      PULL_MAP_def TRIGGER_MAP_def assign_cb_def clear_cb_def register_cb_def Let_def)

subsection \<open>Solenoid\<close>

text \<open>
  C5, as the code has it. Every call first sets the pin high. The length of the sleep is
  the override, in seconds, when the override is a number other than zero; it is the
  configured default (the constructor's milliseconds over 1000, in seconds) when the
  override is absent, false (zero, an empty string) or refused by \<open>float()\<close>, and that
  refusal never reaches the caller. When the length is not negative the call sleeps for
  it and then sets the pin low. When it is negative, \<open>time.sleep\<close> raises to the caller
  after the pin was set high, and the pin is not set low.
\<close>

theorem Solenoid_open_trace:
  "Solenoid_open self v =
    (let d = (case v of
                PyNone \<Rightarrow> sol_duration self
              | PyNum x \<Rightarrow> if x = 0 then sol_duration self else x
              | PyObj t \<Rightarrow> sol_duration self)
     in if 0 \<le> d
        then ([Write (sol_pin self) 1, Sleep d, Write (sol_pin self) 0], None)
        else ([Write (sol_pin self) 1], Some IOError))"
  by (cases v) (auto simp: Solenoid_open_def Let_def)

text \<open>
  A negative override: the pin is set high, the sleep raises, the pin stays high.
\<close>

theorem Solenoid_open_negative_counterexample:
  "Solenoid_init 7 100 = Inr \<lparr>sol_pin = 4, sol_duration = 1 / 10\<rparr>
   \<and> Solenoid_open \<lparr>sol_pin = 4, sol_duration = 1 / 10\<rparr> (PyNum (- 1)) =
       ([Write 4 1], Some IOError)"
  by (simp add: Solenoid_init_def BOARD_TO_BCM_def dict_of_def BOARD_TO_BCM_items_def
      Solenoid_open_def)

subsection \<open>LED_RGB\<close>

lemma request_color_blocked:
  "\<not> is_set (led_flash_block s) \<Longrightarrow>
   request_color rq s = s\<lparr>led_stored_color := stash rq (led_stored_color s)\<rparr>"
  by (simp add: request_color_def set_color_def unpacked_def stash_def
      split: sum.splits option.splits)

lemma fold_request_color_blocked:
  "\<not> is_set (led_flash_block s) \<Longrightarrow>
   fold request_color rqs s = s\<lparr>led_stored_color := fold stash rqs (led_stored_color s)\<rparr>"
proof (induction rqs arbitrary: s)
  case Nil
  then show ?case by simp
next
  case (Cons rq rqs)
  then show ?case by (simp add: request_color_blocked)
qed

lemma map_filter_snoc:
  "List.map_filter f (xs @ [x]) =
     List.map_filter f xs @ (case f x of None \<Rightarrow> [] | Some y \<Rightarrow> [y])"
  by (induction xs) (simp_all add: List.map_filter_simps split: option.splits)

lemma last_requested_snoc:
  "last_requested (rqs @ [rq]) =
     (case requested rq of Some c \<Rightarrow> Some c | None \<Rightarrow> last_requested rqs)"
  by (simp add: last_requested_def map_filter_snoc Let_def split: option.splits)

lemma unpacked_requested:
  assumes "\<not> zero_channel rq"
  shows "unpacked rq = requested rq"
proof (cases "\<exists>r g b. rq_r rq = Some r \<and> rq_g rq = Some g \<and> rq_b rq = Some b")
  case True
  then obtain r g b where "rq_r rq = Some r" "rq_g rq = Some g" "rq_b rq = Some b"
    by blast
  with assms show ?thesis
    by (simp add: unpacked_def requested_def zero_channel_def unpack_color_def)
next
  case False
  then have "rq_r rq = None \<or> rq_g rq = None \<or> rq_b rq = None"
    by (cases "rq_r rq"; cases "rq_g rq"; cases "rq_b rq") simp_all
  then show ?thesis
    by (auto simp: unpacked_def requested_def unpack_color_def
        split: option.splits)
qed

lemma fold_stash_last:
  assumes "list_all (\<lambda>rq. \<not> zero_channel rq) rqs"
  shows "fold stash rqs acc = (case last_requested rqs of Some c \<Rightarrow> Some c | None \<Rightarrow> acc)"
  using assms
proof (induction rqs rule: rev_induct)
  case Nil
  then show ?case by (simp add: last_requested_def List.map_filter_simps)
next
  case (snoc rq rqs)
  then have "unpacked rq = requested rq"
    by (simp add: unpacked_requested)
  with snoc show ?case
    by (simp add: last_requested_snoc stash_def split: option.splits)
qed

lemma apply_color_valid:
  assumes "led_pins s = Some (pr, pg, pb)" "valid_color (r, g, b)"
  shows "apply_color s (r, g, b) =
     (None, if led_common s = ''anode''
            then s\<lparr>led_pwm := (led_pwm s)(pr \<mapsto> 255 - r, pg \<mapsto> 255 - g, pb \<mapsto> 255 - b)\<rparr>
            else if led_common s = ''cathode''
            then s\<lparr>led_pwm := (led_pwm s)(pr \<mapsto> r, pg \<mapsto> g, pb \<mapsto> b)\<rparr>
            else s)"
  using assms by (simp add: apply_color_def valid_color_def set_PWM_dutycycle_def)

lemma apply_color_shows:
  assumes "led_pins s = Some (pr, pg, pb)" "distinct [pr, pg, pb]" "valid_color c"
      and "led_common s = ''anode'' \<or> led_common s = ''cathode''"
  shows "\<exists>s'. apply_color s c = (None, s') \<and> shows_color s' c
     \<and> led_pins s' = led_pins s \<and> led_common s' = led_common s
     \<and> led_flash_block s' = led_flash_block s \<and> led_stored_color s' = led_stored_color s
     \<and> led_timers s' = led_timers s"
proof -
  obtain r g b where c: "c = (r, g, b)" by (cases c) auto
  show ?thesis
    using assms unfolding c
    by (auto simp: apply_color_valid shows_color_def)
qed

lemma shows_color_cong:
  assumes "led_pins s' = led_pins s" "led_common s' = led_common s" "led_pwm s' = led_pwm s"
  shows "shows_color s' c = shows_color s c"
  unfolding shows_color_def assms by (rule refl)

lemma set_color_internal:
  assumes "led_pins s = Some (pr, pg, pb)" "distinct [pr, pg, pb]" "valid_col c"
      and "led_common s = ''anode'' \<or> led_common s = ''cathode''"
  shows "\<exists>s'. set_color s (Some c) None None None None False True = (None, s')
     \<and> shows_color s' (color_of c)
     \<and> led_pins s' = led_pins s \<and> led_common s' = led_common s
     \<and> led_flash_block s' = led_flash_block s \<and> led_stored_color s' = led_stored_color s"
proof -
  have len: "\<not> length c < 3" and vc: "valid_color (color_of c)"
    using assms(3) by (auto simp: valid_col_def)
  obtain s' where a: "apply_color s (color_of c) = (None, s')"
      and b: "shows_color s' (color_of c)" "led_pins s' = led_pins s"
        "led_common s' = led_common s" "led_flash_block s' = led_flash_block s"
        "led_stored_color s' = led_stored_color s"
    using apply_color_shows [OF assms(1) assms(2) vc assms(4)] by blast
  have "set_color s (Some c) None None None None False True = (None, s')"
    using len a by (simp add: set_color_def unpack_color_def color_of_def)
  with b show ?thesis by blast
qed

lemma concat_take_Suc:
  "concat (take (Suc n) during) =
     (case during of [] \<Rightarrow> [] | rs # x \<Rightarrow> rs) @ concat (take n (tl during))"
  by (cases during) simp_all

lemma run_steps_blocked:
  assumes "led_pins s = Some (pr, pg, pb)" "distinct [pr, pg, pb]"
      and "led_common s = ''anode'' \<or> led_common s = ''cathode''"
      and "\<not> is_set (led_flash_block s)"
      and "list_all valid_col (map fst steps)"
      and "list_all (\<lambda>d. 0 \<le> d) (map snd steps)"
  shows "\<exists>s'. run_steps s steps during = (None, s')
     \<and> led_pins s' = led_pins s \<and> led_common s' = led_common s
     \<and> led_flash_block s' = led_flash_block s
     \<and> led_stored_color s' =
         fold stash (concat (take (length steps) during)) (led_stored_color s)
     \<and> (if steps = [] then led_pwm s' = led_pwm s
         else shows_color s' (color_of (fst (last steps))))"
  using assms
proof (induction steps arbitrary: s during)
  case Nil
  then show ?case by simp
next
  case (Cons step rest)
  obtain c d where step: "step = (c, d)" by (cases step) auto
  from Cons.prems step have vc: "valid_col c" and d: "\<not> d < 0"
    by auto
  obtain s1 where s1: "set_color s (Some c) None None None None False True = (None, s1)"
      and sh1: "shows_color s1 (color_of c)"
      and same1: "led_pins s1 = led_pins s" "led_common s1 = led_common s"
        "led_flash_block s1 = led_flash_block s" "led_stored_color s1 = led_stored_color s"
    using set_color_internal [OF Cons.prems(1) Cons.prems(2) vc Cons.prems(3)] by blast
  let ?rs = "case during of [] \<Rightarrow> [] | rs # x \<Rightarrow> rs"
  let ?s2 = "fold request_color ?rs s1"
  have blocked1: "\<not> is_set (led_flash_block s1)"
    using same1 Cons.prems(4) by simp
  have s2: "?s2 = s1\<lparr>led_stored_color := fold stash ?rs (led_stored_color s1)\<rparr>"
    using blocked1 by (rule fold_request_color_blocked)
  have same2: "led_pins ?s2 = led_pins s" "led_common ?s2 = led_common s"
    "led_flash_block ?s2 = led_flash_block s" "led_pwm ?s2 = led_pwm s1"
    "led_stored_color ?s2 = fold stash ?rs (led_stored_color s)"
    by (simp_all add: s2 same1)
  have sh2: "shows_color ?s2 (color_of c)"
  proof -
    have "shows_color ?s2 (color_of c) = shows_color s1 (color_of c)"
      by (rule shows_color_cong) (simp_all add: same1 same2)
    with sh1 show ?thesis by simp
  qed
  have run: "run_steps s (step # rest) during = run_steps ?s2 rest (tl during)"
    using s1 d by (simp add: step)
  have "\<exists>s'. run_steps ?s2 rest (tl during) = (None, s')
     \<and> led_pins s' = led_pins ?s2 \<and> led_common s' = led_common ?s2
     \<and> led_flash_block s' = led_flash_block ?s2
     \<and> led_stored_color s' =
         fold stash (concat (take (length rest) (tl during))) (led_stored_color ?s2)
     \<and> (if rest = [] then led_pwm s' = led_pwm ?s2
         else shows_color s' (color_of (fst (last rest))))"
  proof (rule Cons.IH)
    show "led_pins ?s2 = Some (pr, pg, pb)" using same2 Cons.prems(1) by simp
    show "distinct [pr, pg, pb]" by (rule Cons.prems(2))
    show "led_common ?s2 = ''anode'' \<or> led_common ?s2 = ''cathode''"
      using same2 Cons.prems(3) by simp
    show "\<not> is_set (led_flash_block ?s2)" using same2 Cons.prems(4) by simp
    show "list_all valid_col (map fst rest)" using Cons.prems(5) by simp
    show "list_all (\<lambda>d. 0 \<le> d) (map snd rest)" using Cons.prems(6) by simp
  qed
  then obtain s' where r: "run_steps ?s2 rest (tl during) = (None, s')"
      and same': "led_pins s' = led_pins ?s2" "led_common s' = led_common ?s2"
        "led_flash_block s' = led_flash_block ?s2"
      and st': "led_stored_color s' =
         fold stash (concat (take (length rest) (tl during))) (led_stored_color ?s2)"
      and pw': "if rest = [] then led_pwm s' = led_pwm ?s2
         else shows_color s' (color_of (fst (last rest)))"
    by blast
  have stored: "led_stored_color s' =
      fold stash (concat (take (length (step # rest)) during)) (led_stored_color s)"
    using st' same2 by (simp add: concat_take_Suc del: take_Suc_Cons)
  have shown: "shows_color s' (color_of (fst (last (step # rest))))"
  proof (cases "rest = []")
    case True
    with pw' have "led_pwm s' = led_pwm ?s2" by simp
    with same' have "shows_color s' (color_of c) = shows_color ?s2 (color_of c)"
      by (intro shows_color_cong)
    with sh2 True step show ?thesis by simp
  next
    case False
    with pw' show ?thesis by simp
  qed
  from run r same' same2 stored shown show ?case
    by simp
qed

lemma series_steps_fst:
  "series_steps colors duration = Some steps \<Longrightarrow> map fst steps = colors"
  by (cases duration) (auto simp: series_steps_def comp_def split: if_splits)

lemma request_color_pwm:
  "\<not> is_set (led_flash_block s) \<Longrightarrow> led_pwm (request_color rq s) = led_pwm s"
  by (simp add: request_color_blocked)

lemma set_color_stored_none:
  "led_stored_color s = None \<Longrightarrow>
   set_color s None None None None None True False = (None, s)"
  by (simp add: set_color_def)

lemma set_color_stored_some:
  assumes "led_stored_color s = Some c" "is_set (led_flash_block s)"
  shows "set_color s None None None None None True False =
           apply_color (s\<lparr>led_stored_color := None\<rparr>) c"
  using assms by (simp add: set_color_def split: prod.splits option.splits)

text \<open>
  C4, as the code has it. A request that arrives while \<open>flash_block\<close> is cleared never
  changes the PWM output. Take a device with three distinct pins, a common anode or
  cathode and nothing stashed, a series of valid colours with a well-formed duration and
  no negative sleep, and requests during the run none of which passes \<open>r\<close>, \<open>g\<close>, \<open>b\<close>
  with a channel of zero. The series returns with \<open>flash_block\<close> set and the stash empty,
  and the device then shows the last colour requested during the run, when that colour
  is valid. When no colour was requested, it shows the last colour of the series, and its
  output is unchanged when the series is empty.
\<close>

theorem threaded_color_series_stash:
  assumes pins: "led_pins self = Some (pr, pg, pb)" "distinct [pr, pg, pb]"
      and common: "led_common self = ''anode'' \<or> led_common self = ''cathode''"
      and idle: "led_stored_color self = None"
      and steps: "series_steps colors duration = Some steps"
      and sleeps: "list_all (\<lambda>d. 0 \<le> d) (map snd steps)"
      and cols: "list_all valid_col colors"
      and plain: "list_all (\<lambda>rq. \<not> zero_channel rq)
                    (pre @ concat (take (length colors) during))"
      and lastv: "case last_requested (pre @ concat (take (length colors) during)) of
                    None \<Rightarrow> True | Some c \<Rightarrow> valid_color c"
  shows "(\<not> is_set (led_flash_block s) \<longrightarrow> led_pwm (request_color rq s) = led_pwm s) \<and>
     (\<exists>final. threaded_color_series self colors duration pre during = (None, final)
        \<and> is_set (led_flash_block final) \<and> led_stored_color final = None
        \<and> (case last_requested (pre @ concat (take (length colors) during)) of
             Some c \<Rightarrow> shows_color final c
           | None \<Rightarrow> if colors = [] then led_pwm final = led_pwm self
                     else shows_color final (color_of (last colors))))"
proof
  show "\<not> is_set (led_flash_block s) \<longrightarrow> led_pwm (request_color rq s) = led_pwm s"
    by (simp add: request_color_pwm)
next
  let ?rqs = "pre @ concat (take (length colors) during)"
  let ?s0 = "self\<lparr>led_flash_block := Event_clear (led_flash_block self)\<rparr>"
  let ?s1 = "fold request_color pre ?s0"
  have fst_steps: "map fst steps = colors"
    using steps by (rule series_steps_fst)
  then have len: "length steps = length colors"
    by (metis length_map)
  have blocked0: "\<not> is_set (led_flash_block ?s0)"
    by (simp add: is_set_def Event_clear_def)
  have s1: "?s1 = ?s0\<lparr>led_stored_color := fold stash pre (led_stored_color ?s0)\<rparr>"
    using blocked0 by (rule fold_request_color_blocked)
  have s1_fields: "led_pins ?s1 = Some (pr, pg, pb)" "led_common ?s1 = led_common self"
    "\<not> is_set (led_flash_block ?s1)" "led_pwm ?s1 = led_pwm self"
    "led_stored_color ?s1 = fold stash pre None"
    using pins idle unfolding s1 by (simp_all add: is_set_def Event_clear_def)
  have "\<exists>s'. run_steps ?s1 steps during = (None, s')
     \<and> led_pins s' = led_pins ?s1 \<and> led_common s' = led_common ?s1
     \<and> led_flash_block s' = led_flash_block ?s1
     \<and> led_stored_color s' =
         fold stash (concat (take (length steps) during)) (led_stored_color ?s1)
     \<and> (if steps = [] then led_pwm s' = led_pwm ?s1
         else shows_color s' (color_of (fst (last steps))))"
  proof (rule run_steps_blocked)
    show "led_pins ?s1 = Some (pr, pg, pb)" by (rule s1_fields)
    show "distinct [pr, pg, pb]" by (rule pins)
    show "led_common ?s1 = ''anode'' \<or> led_common ?s1 = ''cathode''"
      using common s1_fields by simp
    show "\<not> is_set (led_flash_block ?s1)" by (rule s1_fields)
    show "list_all valid_col (map fst steps)" using cols fst_steps by simp
    show "list_all (\<lambda>d. 0 \<le> d) (map snd steps)" by (rule sleeps)
  qed
  then obtain s2 where run: "run_steps ?s1 steps during = (None, s2)"
      and same2: "led_pins s2 = led_pins ?s1" "led_common s2 = led_common ?s1"
      and st2: "led_stored_color s2 =
         fold stash (concat (take (length steps) during)) (led_stored_color ?s1)"
      and pw2: "if steps = [] then led_pwm s2 = led_pwm ?s1
         else shows_color s2 (color_of (fst (last steps)))"
    by blast
  have stored2: "led_stored_color s2 = last_requested ?rqs"
  proof -
    have a: "led_stored_color s2 = fold stash ?rqs None"
      using st2 s1_fields len by simp
    have b: "fold stash ?rqs None =
        (case last_requested ?rqs of Some c \<Rightarrow> Some c | None \<Rightarrow> None)"
      using plain by (rule fold_stash_last)
    have c: "(case x of Some c \<Rightarrow> Some c | None \<Rightarrow> None) = x" for x :: "color option"
      by (cases x) simp_all
    from a b c show ?thesis by (simp only:)
  qed
  let ?s3 = "s2\<lparr>led_flash_block := Event_set (led_flash_block s2)\<rparr>"
  have tcs: "threaded_color_series self colors duration pre during =
      set_color ?s3 None None None None None True False"
    using steps run by (simp add: threaded_color_series_def Let_def)
  have set3: "is_set (led_flash_block ?s3)"
    by (simp add: is_set_def Event_set_def)
  have last_steps: "steps \<noteq> [] \<Longrightarrow> fst (last steps) = last colors"
    using fst_steps by (metis last_map)
  show "\<exists>final. threaded_color_series self colors duration pre during = (None, final)
        \<and> is_set (led_flash_block final) \<and> led_stored_color final = None
        \<and> (case last_requested ?rqs of
             Some c \<Rightarrow> shows_color final c
           | None \<Rightarrow> if colors = [] then led_pwm final = led_pwm self
                     else shows_color final (color_of (last colors)))"
  proof (cases "last_requested ?rqs")
    case None
    then have "led_stored_color ?s3 = None"
      using stored2 by simp
    then have fin: "threaded_color_series self colors duration pre during = (None, ?s3)"
      using tcs by (simp add: set_color_stored_none)
    have "if colors = [] then led_pwm ?s3 = led_pwm self
          else shows_color ?s3 (color_of (last colors))"
    proof (cases "colors = []")
      case True
      then have "steps = []" using len by simp
      with pw2 s1_fields True show ?thesis by simp
    next
      case False
      then have ne: "steps \<noteq> []" using len by auto
      with pw2 have "shows_color s2 (color_of (fst (last steps)))" by simp
      then have "shows_color s2 (color_of (last colors))"
        using last_steps [OF ne] by simp
      moreover have "shows_color ?s3 (color_of (last colors)) =
          shows_color s2 (color_of (last colors))"
        by (rule shows_color_cong) simp_all
      ultimately show ?thesis using False by simp
    qed
    with fin set3 None stored2 show ?thesis by simp
  next
    case (Some c)
    then have vc: "valid_color c" using lastv by simp
    let ?s4 = "?s3\<lparr>led_stored_color := None\<rparr>"
    have "led_stored_color ?s3 = Some c" using stored2 Some by simp
    then have app: "threaded_color_series self colors duration pre during = apply_color ?s4 c"
      using tcs set3 by (simp add: set_color_stored_some)
    have p4: "led_pins ?s4 = Some (pr, pg, pb)"
      using same2 s1_fields by simp
    have c4: "led_common ?s4 = ''anode'' \<or> led_common ?s4 = ''cathode''"
      using same2 s1_fields common by simp
    obtain final where "apply_color ?s4 c = (None, final)" "shows_color final c"
        "led_flash_block final = led_flash_block ?s4"
        "led_stored_color final = led_stored_color ?s4"
      using apply_color_shows [OF p4 pins(2) vc c4] by blast
    with app Some show ?thesis
      by (simp add: is_set_def Event_set_def)
  qed
qed

theorem threaded_color_series_stash_witness:
  "led_pwm (request_color
      \<lparr>rq_col = Some [0, 0, 255], rq_r = None, rq_g = None, rq_b = None, rq_timed = None\<rparr>
      \<lparr>led_common = ''anode'', led_stored_color = None, led_flash_block = \<lparr>flag = False\<rparr>,
       led_pins = Some (4, 17, 27), led_pwm = Map.empty, led_timers = []\<rparr>) = Map.empty
   \<and> (\<exists>final.
        threaded_color_series
          \<lparr>led_common = ''anode'', led_stored_color = None, led_flash_block = \<lparr>flag = True\<rparr>,
           led_pins = Some (4, 17, 27), led_pwm = Map.empty, led_timers = []\<rparr>
          [[255, 0, 0], [0, 255, 0]] (Scalar 250)
          [\<lparr>rq_col = Some [1, 2, 3], rq_r = None, rq_g = None, rq_b = None, rq_timed = None\<rparr>]
          [[], [\<lparr>rq_col = Some [0, 0, 255], rq_r = None, rq_g = None, rq_b = None,
                 rq_timed = None\<rparr>]]
          = (None, final)
        \<and> is_set (led_flash_block final) \<and> led_stored_color final = None
        \<and> shows_color final (0, 0, 255))"
proof -
  let ?rq1 = "\<lparr>rq_col = Some [1, 2, 3], rq_r = None, rq_g = None, rq_b = None, rq_timed = None\<rparr>"
  let ?rq2 = "\<lparr>rq_col = Some [0, 0, 255], rq_r = None, rq_g = None, rq_b = None,
                rq_timed = None\<rparr>"
  let ?led = "\<lparr>led_common = ''anode'', led_stored_color = None,
      led_flash_block = \<lparr>flag = True\<rparr>,
      led_pins = Some (4, 17, 27), led_pwm = Map.empty, led_timers = []\<rparr>"
  let ?s = "\<lparr>led_common = ''anode'', led_stored_color = None,
      led_flash_block = \<lparr>flag = False\<rparr>,
      led_pins = Some (4, 17, 27), led_pwm = Map.empty, led_timers = []\<rparr>"
  have lr: "last_requested ([?rq1] @ concat (take (length [[255, 0, 0], [0, 255, 0::int]])
      [[], [?rq2]])) = Some (0, 0, 255)"
    by (simp add: last_requested_def List.map_filter_simps requested_def)
  have "(\<not> is_set (led_flash_block ?s) \<longrightarrow> led_pwm (request_color ?rq2 ?s) = led_pwm ?s) \<and>
     (\<exists>final. threaded_color_series ?led [[255, 0, 0], [0, 255, 0]] (Scalar 250) [?rq1]
          [[], [?rq2]] = (None, final)
        \<and> is_set (led_flash_block final) \<and> led_stored_color final = None
        \<and> (case last_requested ([?rq1] @ concat (take (length [[255, 0, 0], [0, 255, 0::int]])
              [[], [?rq2]])) of
             Some c \<Rightarrow> shows_color final c
           | None \<Rightarrow> if [[255, 0, 0], [0, 255, 0::int]] = [] then led_pwm final = led_pwm ?led
                     else shows_color final (color_of (last [[255, 0, 0], [0, 255, 0]]))))"
  proof (rule threaded_color_series_stash)
    show "led_pins ?led = Some (4, 17, 27)" by simp
    show "distinct [4, 17, 27::nat]" by simp
    show "led_common ?led = ''anode'' \<or> led_common ?led = ''cathode''" by simp
    show "led_stored_color ?led = None" by simp
    show "series_steps [[255, 0, 0], [0, 255, 0]] (Scalar 250) =
        Some [([255, 0, 0], 250 / 1000), ([0, 255, 0], 250 / 1000)]"
      by (simp add: series_steps_def)
    show "list_all (\<lambda>d. 0 \<le> d)
        (map snd [([255, 0, 0], 250 / 1000), ([0, 255, 0::int], 250 / 1000::real)])"
      by simp
    show "list_all valid_col [[255, 0, 0], [0, 255, 0]]"
      by (simp add: valid_col_def valid_color_def color_of_def)
    show "list_all (\<lambda>rq. \<not> zero_channel rq)
        ([?rq1] @ concat (take (length [[255, 0, 0], [0, 255, 0::int]]) [[], [?rq2]]))"
      by (simp add: zero_channel_def)
    show "case last_requested ([?rq1] @ concat (take (length [[255, 0, 0], [0, 255, 0::int]])
        [[], [?rq2]])) of None \<Rightarrow> True | Some c \<Rightarrow> valid_color c"
      unfolding lr by (simp add: valid_color_def)
  qed
  then show ?thesis
    unfolding lr by (simp add: is_set_def)
qed

text \<open>
  With no request during the run, the device does not go back to the colour it showed
  before the series: after a series that ends on red it shows red, not the black it
  showed before.
\<close>

theorem threaded_color_series_idle_counterexample:
  "shows_color
     \<lparr>led_common = ''anode'', led_stored_color = None, led_flash_block = \<lparr>flag = True\<rparr>,
      led_pins = Some (4, 17, 27), led_pwm = [4 \<mapsto> 255, 17 \<mapsto> 255, 27 \<mapsto> 255],
      led_timers = []\<rparr> (0, 0, 0)
   \<and> fst (threaded_color_series
     \<lparr>led_common = ''anode'', led_stored_color = None, led_flash_block = \<lparr>flag = True\<rparr>,
      led_pins = Some (4, 17, 27), led_pwm = [4 \<mapsto> 255, 17 \<mapsto> 255, 27 \<mapsto> 255],
      led_timers = []\<rparr>
     [[255, 0, 0]] (Scalar 250) [] []) = None
   \<and> \<not> shows_color (snd (threaded_color_series
     \<lparr>led_common = ''anode'', led_stored_color = None, led_flash_block = \<lparr>flag = True\<rparr>,
      led_pins = Some (4, 17, 27), led_pwm = [4 \<mapsto> 255, 17 \<mapsto> 255, 27 \<mapsto> 255],
      led_timers = []\<rparr>
     [[255, 0, 0]] (Scalar 250) [] [])) (0, 0, 0)
   \<and> shows_color (snd (threaded_color_series
     \<lparr>led_common = ''anode'', led_stored_color = None, led_flash_block = \<lparr>flag = True\<rparr>,
      led_pins = Some (4, 17, 27), led_pwm = [4 \<mapsto> 255, 17 \<mapsto> 255, 27 \<mapsto> 255],
      led_timers = []\<rparr>
     [[255, 0, 0]] (Scalar 250) [] [])) (255, 0, 0)"
  by (simp add: shows_color_def threaded_color_series_def series_steps_def set_color_def
      unpack_color_def apply_color_def set_PWM_dutycycle_def is_set_def Event_set_def
      Event_clear_def)

subsection \<open>flash\<close>

lemmas fl_eval =
  fl_def binade_def binade_up.simps binade_down.simps round_even_def pow2_def
  finite_double_def n_rep_product_def single_dur_def Let_def

lemma pow2_pos: "0 < pow2 e"
  by (simp add: pow2_def)

lemma round_even_nonneg: "0 \<le> y \<Longrightarrow> 0 \<le> round_even y"
  by (simp add: round_even_def Let_def)

lemma fl_nonneg:
  assumes "0 \<le> x"
  shows "0 \<le> fl x"
proof (cases "x = 0")
  case True
  then show ?thesis by (simp add: fl_def)
next
  case False
  have "0 \<le> x / pow2 (binade x - 52)"
    using assms pow2_pos [of "binade x - 52"] by simp
  then have "0 \<le> round_even (x / pow2 (binade x - 52))"
    by (rule round_even_nonneg)
  then show ?thesis
    using False pow2_pos [of "binade x - 52"] by (simp add: fl_def Let_def)
qed

lemma n_rep_product_nonneg:
  assumes "0 \<le> duration" "0 \<le> frequency"
  shows "0 \<le> n_rep_product duration frequency"
proof -
  have "0 \<le> fl (fl duration / 1000)"
    using fl_nonneg [OF assms(1)] by (intro fl_nonneg) simp
  then have "0 \<le> fl (fl duration / 1000) * fl frequency"
    using fl_nonneg [OF assms(2)] by simp
  then show ?thesis
    unfolding n_rep_product_def by (rule fl_nonneg)
qed

text \<open>
  C7, as the code has it. \<open>flash\<close> at duration 1000, frequency 20 and the colours A, B
  hands \<open>color_series\<close> 20 pairs (A, B), 40 steps, and the step duration 50 ms, and each
  step then sleeps 50/1000 seconds. For every duration that is not negative and every
  positive frequency, when no conversion and no product overflows and the frequency is not
  rounded to zero, the colours are repeated \<open>\<lfloor>p\<rfloor>\<close> times, where \<open>p\<close> is the product
  \<^verbatim>\<open>float(duration)/1000.*float(frequency)\<close> as the doubles give it, and the step
  duration is \<^verbatim>\<open>(1./frequency)*1000\<close> as the doubles give it. The count is
  \<open>\<lfloor>duration * frequency / 1000\<rfloor>\<close> where \<open>p\<close> has the floor of the exact product, as at
  (1000, 20).
\<close>

theorem flash_count_in_doubles:
  "flash 1000 20 [A, B] = Inr (concat (replicate 20 [A, B]), Scalar 50)
   \<and> length (concat (replicate 20 [A, B])) = 40
   \<and> series_steps (concat (replicate 20 [A, B])) (Scalar 50) =
       Some (map (\<lambda>c. (c, 50 / 1000)) (concat (replicate 20 [A, B])))
   \<and> (0 \<le> duration \<and> 0 < frequency \<and> fl frequency \<noteq> 0
       \<and> finite_double (fl duration) \<and> finite_double (fl frequency)
       \<and> finite_double (n_rep_product duration frequency)
      \<longrightarrow> flash duration frequency colors =
            Inr (concat (replicate (nat \<lfloor>n_rep_product duration frequency\<rfloor>) colors),
                 Scalar (single_dur frequency))
          \<and> (\<lfloor>n_rep_product duration frequency\<rfloor> = \<lfloor>duration * frequency / 1000\<rfloor>
             \<longrightarrow> flash duration frequency colors =
                   Inr (concat (replicate (nat \<lfloor>duration * frequency / 1000\<rfloor>) colors),
                        Scalar (single_dur frequency))))"
proof (intro conjI impI)
  show "flash 1000 20 [A, B] = Inr (concat (replicate 20 [A, B]), Scalar 50)"
    by (simp add: flash_def py_int_def fl_eval)
  show "length (concat (replicate 20 [A, B])) = 40"
    by (simp add: length_concat sum_list_replicate)
  show "series_steps (concat (replicate 20 [A, B])) (Scalar 50) =
       Some (map (\<lambda>c. (c, 50 / 1000)) (concat (replicate 20 [A, B])))"
    by (simp add: series_steps_def)
next
  assume h: "0 \<le> duration \<and> 0 < frequency \<and> fl frequency \<noteq> 0
       \<and> finite_double (fl duration) \<and> finite_double (fl frequency)
       \<and> finite_double (n_rep_product duration frequency)"
  then have "0 \<le> n_rep_product duration frequency"
    by (intro n_rep_product_nonneg) simp_all
  then have "py_int (n_rep_product duration frequency) = \<lfloor>n_rep_product duration frequency\<rfloor>"
    by (simp add: py_int_def)
  with h show general: "flash duration frequency colors =
            Inr (concat (replicate (nat \<lfloor>n_rep_product duration frequency\<rfloor>) colors),
                 Scalar (single_dur frequency))"
    by (simp add: flash_def Let_def)
  assume "\<lfloor>n_rep_product duration frequency\<rfloor> = \<lfloor>duration * frequency / 1000\<rfloor>"
  with general show "flash duration frequency colors =
                   Inr (concat (replicate (nat \<lfloor>duration * frequency / 1000\<rfloor>) colors),
                        Scalar (single_dur frequency))"
    by simp
qed

theorem flash_count_in_doubles_witness:
  "flash 1000 20 [[255, 255, 255], [0, 0, 0]] =
     Inr (concat (replicate 20 [[255, 255, 255], [0, 0, 0]]), Scalar 50)
   \<and> length (concat (replicate 20 [[255, 255, 255], [0, 0, 0::int]])) = 40
   \<and> n_rep_product 1000 20 = 20 \<and> single_dur 20 = 50
   \<and> flash 1000 20 [[255, 255, 255], [0, 0, 0]] =
       Inr (concat (replicate (nat \<lfloor>(1000::real) * 20 / 1000\<rfloor>) [[255, 255, 255], [0, 0, 0]]),
            Scalar (single_dur 20))"
proof -
  have p: "n_rep_product 1000 20 = 20" and d: "single_dur 20 = 50"
    and f: "fl 20 = 20" "fl 1000 = 1000"
    by (simp_all add: fl_eval)
  have fin: "finite_double 20" "finite_double 1000"
    by (simp_all add: finite_double_def)
  have hyp: "0 \<le> (1000::real) \<and> 0 < (20::real) \<and> fl 20 \<noteq> 0
       \<and> finite_double (fl 1000) \<and> finite_double (fl 20)
       \<and> finite_double (n_rep_product 1000 20)"
    by (simp add: p f fin)
  have fl_floor: "\<lfloor>n_rep_product 1000 20\<rfloor> = \<lfloor>(1000::real) * 20 / 1000\<rfloor>"
    by (simp add: p)
  from flash_count_in_doubles
         [of "[255, 255, 255]" "[0, 0, 0]" 1000 20 "[[255, 255, 255], [0, 0, 0]]"]
       hyp fl_floor p d
  show ?thesis
    by simp
qed

text \<open>
  At 570 ms and 100 Hz the doubles give 570/1000 as a little less than 0.57 and the
  product as a little less than 57: the colours are repeated 56 times, where
  \<open>\<lfloor>570 * 100 / 1000\<rfloor>\<close> is 57.
\<close>

theorem flash_570_100_counterexample:
  "flash 570 100 [[255, 255, 255], [0, 0, 0]] =
     Inr (concat (replicate 56 [[255, 255, 255], [0, 0, 0]]), Scalar 10)
   \<and> \<lfloor>(570::real) * 100 / 1000\<rfloor> = 57"
  by (simp add: flash_def py_int_def fl_eval)

subsection \<open>Wheel\<close>

lemma sqrt_numerals:
  "sqrt 9 = 3" "sqrt 400 = 20" "sqrt 900 = 30" "sqrt 10201 = 101"
proof -
  have "sqrt (3\<^sup>2) = 3" "sqrt (20\<^sup>2) = 20" "sqrt (30\<^sup>2) = 30" "sqrt (101\<^sup>2) = 101"
    by simp_all
  then show "sqrt 9 = 3" "sqrt 400 = 20" "sqrt 900 = 30" "sqrt 10201 = 101"
    by simp_all
qed

lemmas wheel_eval =
  record_turn_def check_thresh_def calc_move_def thresh_trig_def to_moves_def sum_vel_def
  l_measure_def l_clear_def l_stop_def release_def MODES_def
  Event_truth_def Event_set_def Event_clear_def Event_new_def is_set_def Let_def
  fl_def binade_def binade_up.simps binade_down.simps round_even_def pow2_def sqrt_numerals

text \<open>
  C10. The constructor stores the \<open>thresh_type\<close> \<^verbatim>\<open>'vel'\<close>, which is one of
  \<open>THRESH_TYPES\<close>, and on the Wheel it returns \<open>calc_move\<close> raises \<^verbatim>\<open>UnboundLocalError\<close>
  for every batch when it is called with the Wheel's own \<open>thresh_type\<close>, as
  \<open>check_thresh\<close> calls it in the polling task.
\<close>

theorem calc_move_vel_unbound:
  assumes "Wheel_init fs thresh ''vel'' gpio_trig pins mode integrate_dur = Inr self"
  shows "''vel'' \<in> set THRESH_TYPES \<and> wh_thresh_type self = ''vel''
     \<and> calc_move self mv None = Inl UnboundLocalError"
  using assms
  by (auto simp: Wheel_init_def THRESH_TYPES_def calc_move_def split: if_splits sum.splits)

theorem calc_move_vel_unbound_witness:
  "Wheel_init 20 100 ''vel'' False None ''vel_total'' 3 =
     Inr \<lparr>wh_fs = 20, wh_update_dur = 1 / 20, wh_thresh = 100, wh_thresh_val = Acc 0,
          wh_thresh_type = ''vel'', wh_mode = ''vel_total'', wh_integrate_dur = 3,
          wh_quit_evt = \<lparr>flag = True\<rparr>, wh_measure_evt = \<lparr>flag = False\<rparr>,
          wh_gpio_trig = False, wh_pins = [], wh_triggered = [], wh_sent = []\<rparr>
   \<and> ''vel'' \<in> set THRESH_TYPES
   \<and> calc_move
        \<lparr>wh_fs = 20, wh_update_dur = 1 / 20, wh_thresh = 100, wh_thresh_val = Acc 0,
          wh_thresh_type = ''vel'', wh_mode = ''vel_total'', wh_integrate_dur = 3,
          wh_quit_evt = \<lparr>flag = True\<rparr>, wh_measure_evt = \<lparr>flag = False\<rparr>,
          wh_gpio_trig = False, wh_pins = [], wh_triggered = [], wh_sent = []\<rparr>
        [\<lparr>vel = 5, dir = ''REL_X'', timestamp = 0\<rparr>] None = Inl UnboundLocalError"
proof -
  have init: "Wheel_init 20 100 ''vel'' False None ''vel_total'' 3 =
     Inr \<lparr>wh_fs = 20, wh_update_dur = 1 / 20, wh_thresh = 100, wh_thresh_val = Acc 0,
          wh_thresh_type = ''vel'', wh_mode = ''vel_total'', wh_integrate_dur = 3,
          wh_quit_evt = \<lparr>flag = True\<rparr>, wh_measure_evt = \<lparr>flag = False\<rparr>,
          wh_gpio_trig = False, wh_pins = [], wh_triggered = [], wh_sent = []\<rparr>"
    by (simp add: Wheel_init_def Event_set_def Event_new_def)
  from calc_move_vel_unbound [OF init] init show ?thesis
    by simp
qed

lemma Wheel_record_never_exits: "Wheel_record self moves lu ticks \<noteq> Exited s'"
  by (induction ticks arbitrary: self moves lu)
     (auto simp: Event_truth_def split: sum.splits prod.splits)

text \<open>
  C1. A Wheel with the constructor's defaults; \<^verbatim>\<open>STOP\<close> arrives while the task waits in
  the read of the first turn. \<open>quit_evt\<close> is cleared, and the task goes on: it sends
  \<^verbatim>\<open>CONTINUOUS\<close> in the second and the third turn and then waits in the next read.
\<close>

theorem record_ignores_stop:
  "Wheel_init 20 100 ''dist'' False None ''vel_total'' 3 =
     Inr \<lparr>wh_fs = 20, wh_update_dur = 1 / 20, wh_thresh = 100, wh_thresh_val = Acc 0,
          wh_thresh_type = ''dist'', wh_mode = ''vel_total'', wh_integrate_dur = 3,
          wh_quit_evt = \<lparr>flag = True\<rparr>, wh_measure_evt = \<lparr>flag = False\<rparr>,
          wh_gpio_trig = False, wh_pins = [], wh_triggered = [], wh_sent = []\<rparr>
   \<and> Wheel_record
     \<lparr>wh_fs = 20, wh_update_dur = 1 / 20, wh_thresh = 100, wh_thresh_val = Acc 0,
          wh_thresh_type = ''dist'', wh_mode = ''vel_total'', wh_integrate_dur = 3,
          wh_quit_evt = \<lparr>flag = True\<rparr>, wh_measure_evt = \<lparr>flag = False\<rparr>,
          wh_gpio_trig = False, wh_pins = [], wh_triggered = [], wh_sent = []\<rparr>
     [] 0
     [\<lparr>tk_msgs = [STOP], tk_events = [], tk_now = 1 / 10\<rparr>,
      \<lparr>tk_msgs = [], tk_events = [\<lparr>ev_state = 3, ev_code = ''REL_X'', ev_timestamp = 0\<rparr>],
        tk_now = 2 / 10\<rparr>,
      \<lparr>tk_msgs = [], tk_events = [], tk_now = 3 / 10\<rparr>] =
   Reading
     \<lparr>wh_fs = 20, wh_update_dur = 1 / 20, wh_thresh = 100, wh_thresh_val = Acc 0,
          wh_thresh_type = ''dist'', wh_mode = ''vel_total'', wh_integrate_dur = 3,
          wh_quit_evt = \<lparr>flag = False\<rparr>, wh_measure_evt = \<lparr>flag = False\<rparr>,
          wh_gpio_trig = False, wh_pins = [], wh_triggered = [],
          wh_sent = [\<lparr>tm_x = 0, tm_y = 0, tm_t = 1 / 10\<rparr>,
            \<lparr>tm_x = 3, tm_y = 0, tm_t = 2 / 10\<rparr>,
            \<lparr>tm_x = 0, tm_y = 0, tm_t = 3 / 10\<rparr>]\<rparr>"
  by (simp add: Wheel_init_def wheel_eval)

text \<open>
  C2. A Wheel with the constructor's defaults, which no \<^verbatim>\<open>MEASURE\<close> has armed
  (\<open>measure_evt\<close> is not set): the first batch, of velocity 101 against the threshold
  100, is evaluated and \<open>thresh_trig\<close> is called.
\<close>

theorem record_disarmed_fires:
  "Wheel_init 20 100 ''dist'' False None ''vel_total'' 3 =
     Inr \<lparr>wh_fs = 20, wh_update_dur = 1 / 20, wh_thresh = 100, wh_thresh_val = Acc 0,
          wh_thresh_type = ''dist'', wh_mode = ''vel_total'', wh_integrate_dur = 3,
          wh_quit_evt = \<lparr>flag = True\<rparr>, wh_measure_evt = \<lparr>flag = False\<rparr>,
          wh_gpio_trig = False, wh_pins = [], wh_triggered = [], wh_sent = []\<rparr>
   \<and> Wheel_record
        \<lparr>wh_fs = 20, wh_update_dur = 1 / 20, wh_thresh = 100, wh_thresh_val = Acc 0,
          wh_thresh_type = ''dist'', wh_mode = ''vel_total'', wh_integrate_dur = 3,
          wh_quit_evt = \<lparr>flag = True\<rparr>, wh_measure_evt = \<lparr>flag = False\<rparr>,
          wh_gpio_trig = False, wh_pins = [], wh_triggered = [], wh_sent = []\<rparr>
        [] 0
        [\<lparr>tk_msgs = [], tk_events = [\<lparr>ev_state = 101, ev_code = ''REL_X'', ev_timestamp = 0\<rparr>],
          tk_now = 1 / 100\<rparr>] =
     Reading \<lparr>wh_fs = 20, wh_update_dur = 1 / 20, wh_thresh = 100, wh_thresh_val = Acc 0,
          wh_thresh_type = ''dist'', wh_mode = ''vel_total'', wh_integrate_dur = 3,
          wh_quit_evt = \<lparr>flag = True\<rparr>, wh_measure_evt = \<lparr>flag = False\<rparr>,
          wh_gpio_trig = False, wh_pins = [], wh_triggered = [[]], wh_sent = []\<rparr>"
  by (simp add: Wheel_init_def wheel_eval)

lemma batch_metric_cong:
  "wh_thresh_type s' = wh_thresh_type s \<Longrightarrow> batch_metric s' t = batch_metric s t"
  by (simp add: batch_metric_def calc_move_def)

lemma acc_total_cong:
  assumes "wh_thresh_type s' = wh_thresh_type s"
  shows "acc_total s' a ts = acc_total s a ts"
proof -
  have "batch_metric s' = batch_metric s"
    by (rule ext) (rule batch_metric_cong [OF assms])
  then show ?thesis
    by (simp add: acc_total_def)
qed

lemma acc_total_Cons:
  "acc_total s a (t # ts) = acc_total s (fl (a + batch_metric s t)) ts"
  by (simp add: acc_total_def)

lemma calc_move_typed:
  assumes "wh_thresh_type s = ''x'' \<or> wh_thresh_type s = ''y'' \<or> wh_thresh_type s = ''dist''"
  shows "calc_move s (to_moves (tk_events t)) None = Inr (batch_metric s t)"
  using assms by (auto simp: batch_metric_def calc_move_def)

lemma calc_move_axis:
  "calc_move s ms (Some ''y'') = Inr (real_of_int (sum_vel ms ''REL_Y''))"
  "calc_move s ms (Some ''x'') = Inr (real_of_int (sum_vel ms ''REL_X''))"
  by (simp_all add: calc_move_def)

lemma check_thresh_dist:
  assumes "wh_mode s = ''dist''" "wh_thresh_val s = Acc a"
      and "wh_thresh_type s = ''x'' \<or> wh_thresh_type s = ''y'' \<or> wh_thresh_type s = ''dist''"
  shows "check_thresh s (to_moves (tk_events t)) =
           Inr (fl (a + batch_metric s t) > wh_thresh s,
                s\<lparr>wh_thresh_val := Acc (fl (a + batch_metric s t))\<rparr>)"
  using assms(1,2) calc_move_typed [OF assms(3)]
  by (simp add: check_thresh_def)

lemma thresh_trig_None:
  assumes "\<not> wh_gpio_trig s \<or> wh_pins s = []"
  shows "thresh_trig s None =
     Inr (s\<lparr>wh_triggered := wh_triggered s @ [[]],
            wh_measure_evt := Event_clear (wh_measure_evt s)\<rparr>)"
  using assms by (auto simp: thresh_trig_def)

lemma record_turn_dist_below_eq:
  assumes "wh_mode s = ''dist''" "wh_thresh_val s = Acc a"
      and "wh_thresh_type s = ''x'' \<or> wh_thresh_type s = ''y'' \<or> wh_thresh_type s = ''dist''"
      and "tk_msgs t = []"
      and "fl (a + batch_metric s t) \<le> wh_thresh s"
  shows "record_turn s moves lu t =
     Inr (if tk_now t - lu > wh_update_dur s
          then (s\<lparr>wh_thresh_val := Acc (fl (a + batch_metric s t)),
                  wh_sent := wh_sent s @
                    [\<lparr>tm_x = real_of_int (sum_vel (moves @ to_moves (tk_events t)) ''REL_X''),
                      tm_y = real_of_int (sum_vel (moves @ to_moves (tk_events t)) ''REL_Y''),
                      tm_t = tk_now t\<rparr>]\<rparr>, [], tk_now t)
          else (s\<lparr>wh_thresh_val := Acc (fl (a + batch_metric s t))\<rparr>,
                moves @ to_moves (tk_events t), lu))"
proof -
  have ct: "check_thresh s (to_moves (tk_events t)) =
      Inr (False, s\<lparr>wh_thresh_val := Acc (fl (a + batch_metric s t))\<rparr>)"
    using check_thresh_dist [OF assms(1-3), of t] assms(5) by simp
  show ?thesis
    unfolding record_turn_def Let_def assms(4) fold_simps ct Event_truth_def calc_move_axis
    by simp
qed

lemma record_turn_dist_above_eq:
  assumes "wh_mode s = ''dist''" "wh_thresh_val s = Acc a"
      and "wh_thresh_type s = ''x'' \<or> wh_thresh_type s = ''y'' \<or> wh_thresh_type s = ''dist''"
      and "tk_msgs t = []"
      and "fl (a + batch_metric s t) > wh_thresh s"
      and "\<not> wh_gpio_trig s \<or> wh_pins s = []"
  shows "record_turn s moves lu t =
     Inr (if tk_now t - lu > wh_update_dur s
          then (s\<lparr>wh_thresh_val := Acc (fl (a + batch_metric s t)),
                  wh_triggered := wh_triggered s @ [[]],
                  wh_measure_evt := Event_clear (Event_clear (wh_measure_evt s)),
                  wh_sent := wh_sent s @
                    [\<lparr>tm_x = real_of_int (sum_vel (moves @ to_moves (tk_events t)) ''REL_X''),
                      tm_y = real_of_int (sum_vel (moves @ to_moves (tk_events t)) ''REL_Y''),
                      tm_t = tk_now t\<rparr>]\<rparr>, [], tk_now t)
          else (s\<lparr>wh_thresh_val := Acc (fl (a + batch_metric s t)),
                  wh_triggered := wh_triggered s @ [[]],
                  wh_measure_evt := Event_clear (Event_clear (wh_measure_evt s))\<rparr>,
                moves @ to_moves (tk_events t), lu))"
proof -
  let ?s2 = "s\<lparr>wh_thresh_val := Acc (fl (a + batch_metric s t))\<rparr>"
  have ct: "check_thresh s (to_moves (tk_events t)) = Inr (True, ?s2)"
    using check_thresh_dist [OF assms(1-3), of t] assms(5) by simp
  have "\<not> wh_gpio_trig ?s2 \<or> wh_pins ?s2 = []"
    using assms(6) by simp
  then have tt: "thresh_trig ?s2 None =
     Inr (?s2\<lparr>wh_triggered := wh_triggered ?s2 @ [[]],
            wh_measure_evt := Event_clear (wh_measure_evt ?s2)\<rparr>)"
    by (rule thresh_trig_None)
  show ?thesis
    unfolding record_turn_def Let_def assms(4) fold_simps ct Event_truth_def calc_move_axis
    by (simp add: tt)
qed

lemma record_turn_dist_below:
  assumes "wh_mode s = ''dist''" "wh_thresh_val s = Acc a"
      and "wh_thresh_type s = ''x'' \<or> wh_thresh_type s = ''y'' \<or> wh_thresh_type s = ''dist''"
      and "tk_msgs t = []"
      and "fl (a + batch_metric s t) \<le> wh_thresh s"
  shows "\<exists>s' moves' lu'. record_turn s moves lu t = Inr (s', moves', lu')
     \<and> wh_thresh_val s' = Acc (fl (a + batch_metric s t)) \<and> same_setup s s'
     \<and> wh_triggered s' = wh_triggered s \<and> wh_measure_evt s' = wh_measure_evt s"
  unfolding record_turn_dist_below_eq [OF assms]
  by (cases "tk_now t - lu > wh_update_dur s") (simp_all add: same_setup_def)

lemma record_turn_dist_above:
  assumes "wh_mode s = ''dist''" "wh_thresh_val s = Acc a"
      and "wh_thresh_type s = ''x'' \<or> wh_thresh_type s = ''y'' \<or> wh_thresh_type s = ''dist''"
      and "tk_msgs t = []"
      and "fl (a + batch_metric s t) > wh_thresh s"
      and "\<not> wh_gpio_trig s \<or> wh_pins s = []"
  shows "\<exists>s' moves' lu'. record_turn s moves lu t = Inr (s', moves', lu')
     \<and> same_setup s s'
     \<and> wh_triggered s' = wh_triggered s @ [[]] \<and> \<not> is_set (wh_measure_evt s')"
  unfolding record_turn_dist_above_eq [OF assms]
  by (cases "tk_now t - lu > wh_update_dur s")
     (simp_all add: same_setup_def is_set_def Event_clear_def)

lemma same_setup_trans: "same_setup s s1 \<Longrightarrow> same_setup s1 s2 \<Longrightarrow> same_setup s s2"
  by (simp add: same_setup_def)

lemma Wheel_record_Cons:
  "record_turn s moves lu t = Inr (s', moves', lu') \<Longrightarrow>
   Wheel_record s moves lu (t # ts) = Wheel_record s' moves' lu' ts"
  by (simp add: Event_truth_def)

lemma dist_quiet_run:
  assumes "wh_mode s = ''dist''" "wh_thresh_val s = Acc a"
      and "wh_thresh_type s = ''x'' \<or> wh_thresh_type s = ''y'' \<or> wh_thresh_type s = ''dist''"
      and "\<forall>t \<in> set ts. tk_msgs t = []"
      and "\<forall>k < length ts. acc_total s a (take (Suc k) ts) \<le> wh_thresh s"
  shows "\<exists>s'. Wheel_record s moves lu ts = Reading s'
     \<and> wh_thresh_val s' = Acc (acc_total s a ts) \<and> same_setup s s'
     \<and> wh_triggered s' = wh_triggered s \<and> wh_measure_evt s' = wh_measure_evt s"
  using assms
proof (induction ts arbitrary: s a moves lu)
  case Nil
  then show ?case
    by (simp add: Event_truth_def acc_total_def same_setup_def)
next
  case (Cons t ts)
  have quiet: "tk_msgs t = []" using Cons.prems(4) by simp
  have "0 < length (t # ts)" by simp
  then have "acc_total s a (take (Suc 0) (t # ts)) \<le> wh_thresh s"
    using Cons.prems(5) by blast
  then have first: "fl (a + batch_metric s t) \<le> wh_thresh s"
    by (simp add: acc_total_def)
  obtain s1 m1 l1 where turn: "record_turn s moves lu t = Inr (s1, m1, l1)"
      and tv1: "wh_thresh_val s1 = Acc (fl (a + batch_metric s t))"
      and same1: "same_setup s s1"
      and trg1: "wh_triggered s1 = wh_triggered s"
      and evt1: "wh_measure_evt s1 = wh_measure_evt s"
    using record_turn_dist_below [OF Cons.prems(1-3) quiet first] by blast
  have tt1: "wh_thresh_type s1 = wh_thresh_type s" and th1: "wh_thresh s1 = wh_thresh s"
    and md1: "wh_mode s1 = wh_mode s"
    using same1 by (simp_all add: same_setup_def)
  have rt1: "acc_total s1 b xs = acc_total s b xs" for b xs
    by (rule acc_total_cong [OF tt1])
  have "\<exists>s'. Wheel_record s1 m1 l1 ts = Reading s'
     \<and> wh_thresh_val s' = Acc (acc_total s1 (fl (a + batch_metric s t)) ts)
     \<and> same_setup s1 s'
     \<and> wh_triggered s' = wh_triggered s1 \<and> wh_measure_evt s' = wh_measure_evt s1"
  proof (rule Cons.IH)
    show "wh_mode s1 = ''dist''" using md1 Cons.prems(1) by simp
    show "wh_thresh_val s1 = Acc (fl (a + batch_metric s t))" by (rule tv1)
    show "wh_thresh_type s1 = ''x'' \<or> wh_thresh_type s1 = ''y'' \<or> wh_thresh_type s1 = ''dist''"
      using tt1 Cons.prems(3) by simp
    show "\<forall>t \<in> set ts. tk_msgs t = []" using Cons.prems(4) by simp
    show "\<forall>k < length ts. acc_total s1 (fl (a + batch_metric s t)) (take (Suc k) ts)
        \<le> wh_thresh s1"
    proof (intro allI impI)
      fix k assume "k < length ts"
      then have "Suc k < length (t # ts)" by simp
      then have "acc_total s a (take (Suc (Suc k)) (t # ts)) \<le> wh_thresh s"
        using Cons.prems(5) by blast
      then show "acc_total s1 (fl (a + batch_metric s t)) (take (Suc k) ts) \<le> wh_thresh s1"
        by (simp add: rt1 th1 acc_total_Cons)
    qed
  qed
  then obtain s' where "Wheel_record s1 m1 l1 ts = Reading s'"
      "wh_thresh_val s' = Acc (acc_total s1 (fl (a + batch_metric s t)) ts)"
      "same_setup s1 s'" "wh_triggered s' = wh_triggered s1"
      "wh_measure_evt s' = wh_measure_evt s1"
    by blast
  then show ?case
    using Wheel_record_Cons [OF turn, of ts] same_setup_trans [OF same1] trg1 evt1
    by (simp add: rt1 acc_total_Cons)
qed

lemma dist_fire_run:
  assumes "wh_mode s = ''dist''" "wh_thresh_val s = Acc a"
      and "wh_thresh_type s = ''x'' \<or> wh_thresh_type s = ''y'' \<or> wh_thresh_type s = ''dist''"
      and "\<forall>t \<in> set (ts @ [t]). tk_msgs t = []"
      and "\<forall>k < length ts. acc_total s a (take (Suc k) ts) \<le> wh_thresh s"
      and "acc_total s a (ts @ [t]) > wh_thresh s"
      and "\<not> wh_gpio_trig s \<or> wh_pins s = []"
  shows "\<exists>s'. Wheel_record s moves lu (ts @ [t]) = Reading s'
     \<and> same_setup s s'
     \<and> wh_triggered s' = wh_triggered s @ [[]] \<and> \<not> is_set (wh_measure_evt s')"
  using assms
proof (induction ts arbitrary: s a moves lu)
  case Nil
  have quiet: "tk_msgs t = []" using Nil.prems(4) by simp
  have over: "fl (a + batch_metric s t) > wh_thresh s"
    using Nil.prems(6) by (simp add: acc_total_def)
  obtain s1 m1 l1 where turn: "record_turn s moves lu t = Inr (s1, m1, l1)"
      and rest: "same_setup s s1" "wh_triggered s1 = wh_triggered s @ [[]]"
        "\<not> is_set (wh_measure_evt s1)"
    using record_turn_dist_above [OF Nil.prems(1-3) quiet over Nil.prems(7)] by blast
  have "Wheel_record s moves lu ([] @ [t]) = Reading s1"
    using Wheel_record_Cons [OF turn, of "[]"] by (simp add: Event_truth_def)
  with rest show ?case by blast
next
  case (Cons u ts)
  have quiet: "tk_msgs u = []" using Cons.prems(4) by simp
  have "0 < length (u # ts)" by simp
  then have "acc_total s a (take (Suc 0) (u # ts)) \<le> wh_thresh s"
    using Cons.prems(5) by blast
  then have first: "fl (a + batch_metric s u) \<le> wh_thresh s"
    by (simp add: acc_total_def)
  obtain s1 m1 l1 where turn: "record_turn s moves lu u = Inr (s1, m1, l1)"
      and tv1: "wh_thresh_val s1 = Acc (fl (a + batch_metric s u))"
      and same1: "same_setup s s1"
      and trg1: "wh_triggered s1 = wh_triggered s"
    using record_turn_dist_below [OF Cons.prems(1-3) quiet first] by blast
  have tt1: "wh_thresh_type s1 = wh_thresh_type s" and th1: "wh_thresh s1 = wh_thresh s"
    and md1: "wh_mode s1 = wh_mode s" and gp1: "wh_gpio_trig s1 = wh_gpio_trig s"
    and pn1: "wh_pins s1 = wh_pins s"
    using same1 by (simp_all add: same_setup_def)
  have rt1: "acc_total s1 b xs = acc_total s b xs" for b xs
    by (rule acc_total_cong [OF tt1])
  have "\<exists>s'. Wheel_record s1 m1 l1 (ts @ [t]) = Reading s'
     \<and> same_setup s1 s'
     \<and> wh_triggered s' = wh_triggered s1 @ [[]] \<and> \<not> is_set (wh_measure_evt s')"
  proof (rule Cons.IH)
    show "wh_mode s1 = ''dist''" using md1 Cons.prems(1) by simp
    show "wh_thresh_val s1 = Acc (fl (a + batch_metric s u))" by (rule tv1)
    show "wh_thresh_type s1 = ''x'' \<or> wh_thresh_type s1 = ''y'' \<or> wh_thresh_type s1 = ''dist''"
      using tt1 Cons.prems(3) by simp
    show "\<forall>t \<in> set (ts @ [t]). tk_msgs t = []" using Cons.prems(4) by simp
    show "\<forall>k < length ts. acc_total s1 (fl (a + batch_metric s u)) (take (Suc k) ts)
        \<le> wh_thresh s1"
    proof (intro allI impI)
      fix k assume "k < length ts"
      then have "Suc k < length (u # ts)" by simp
      then have "acc_total s a (take (Suc (Suc k)) (u # ts)) \<le> wh_thresh s"
        using Cons.prems(5) by blast
      then show "acc_total s1 (fl (a + batch_metric s u)) (take (Suc k) ts) \<le> wh_thresh s1"
        by (simp add: rt1 th1 acc_total_Cons)
    qed
    show "wh_thresh s1 < acc_total s1 (fl (a + batch_metric s u)) (ts @ [t])"
      using Cons.prems(6) by (simp add: rt1 th1 acc_total_Cons)
    show "\<not> wh_gpio_trig s1 \<or> wh_pins s1 = []"
      using Cons.prems(7) gp1 pn1 by simp
  qed
  then obtain s' where "Wheel_record s1 m1 l1 (ts @ [t]) = Reading s'"
      "same_setup s1 s'" "wh_triggered s' = wh_triggered s1 @ [[]]"
      "\<not> is_set (wh_measure_evt s')"
    by blast
  then show ?case
    using Wheel_record_Cons [OF turn, of "ts @ [t]"] same_setup_trans [OF same1] trg1
    by simp
qed

lemma fl_50: "fl 50 = 50"
  by (simp add: fl_def binade_def binade_up.simps round_even_def pow2_def Let_def)

lemma l_measure_dist:
  "wh_mode (l_measure s (Some ''dist'') (Some 50)) = ''dist''"
  "wh_thresh (l_measure s (Some ''dist'') (Some 50)) = 50"
  "wh_thresh_val (l_measure s (Some ''dist'') (Some 50)) = Acc 0"
  "wh_thresh_type (l_measure s (Some ''dist'') (Some 50)) = wh_thresh_type s"
  "wh_triggered (l_measure s (Some ''dist'') (Some 50)) = wh_triggered s"
  "is_set (wh_measure_evt (l_measure s (Some ''dist'') (Some 50)))"
  "wh_gpio_trig (l_measure s (Some ''dist'') (Some 50)) = wh_gpio_trig s"
  "wh_pins (l_measure s (Some ''dist'') (Some 50)) = wh_pins s"
  by (simp_all add: l_measure_def MODES_def Let_def is_set_def Event_set_def fl_50)

text \<open>
  C3, as the code has it. A Wheel armed by \<^verbatim>\<open>MEASURE\<close> with the mode \<^verbatim>\<open>'dist'\<close> and the
  threshold 50, with a \<open>thresh_type\<close> that \<open>calc_move\<close> knows and no GPIO pins to pulse,
  batches within the bound \<open>small_batch\<close> and no further message: while the running total
  of the batches, as the doubles accumulate it, stays at or below 50 no trigger fires and
  the Wheel stays armed; at the first batch that takes the running total above 50,
  \<open>thresh_trig\<close> is called once and \<open>measure_evt\<close> is cleared.
\<close>

theorem dist_fires_when_total_exceeds:
  assumes armed: "self = l_measure self0 (Some ''dist'') (Some 50)"
      and tt: "wh_thresh_type self0 = ''x'' \<or> wh_thresh_type self0 = ''y''
               \<or> wh_thresh_type self0 = ''dist''"
      and no_pins: "\<not> wh_gpio_trig self0 \<or> wh_pins self0 = []"
      and quiet: "\<forall>t \<in> set (ts @ [t]). tk_msgs t = []"
      and small: "\<forall>t \<in> set (ts @ [t]). small_batch t"
      and below: "\<forall>k \<le> length ts. acc_total self 0 (take k ts) \<le> 50"
      and above: "acc_total self 0 (ts @ [t]) > 50"
  shows "\<exists>s1 s2. Wheel_record self moves lu ts = Reading s1
        \<and> wh_triggered s1 = wh_triggered self0 \<and> is_set (wh_measure_evt s1)
        \<and> Wheel_record self moves lu (ts @ [t]) = Reading s2
        \<and> wh_triggered s2 = wh_triggered self0 @ [[]]
        \<and> \<not> is_set (wh_measure_evt s2)"
proof -
  have md: "wh_mode self = ''dist''" and tv: "wh_thresh_val self = Acc 0"
    and th: "wh_thresh self = 50"
    and ty: "wh_thresh_type self = ''x'' \<or> wh_thresh_type self = ''y''
             \<or> wh_thresh_type self = ''dist''"
    and np: "\<not> wh_gpio_trig self \<or> wh_pins self = []"
    using tt no_pins unfolding armed by (simp_all add: l_measure_dist)
  have q1: "\<forall>t \<in> set ts. tk_msgs t = []" using quiet by simp
  have b1: "\<forall>k < length ts. acc_total self 0 (take (Suc k) ts) \<le> wh_thresh self"
    using below th by (simp add: Suc_le_eq)
  have a1: "wh_thresh self < acc_total self 0 (ts @ [t])"
    using above th by simp
  obtain s1 where r1: "Wheel_record self moves lu ts = Reading s1"
      "wh_triggered s1 = wh_triggered self" "wh_measure_evt s1 = wh_measure_evt self"
    using dist_quiet_run [OF md tv ty q1 b1] by blast
  obtain s2 where r2: "Wheel_record self moves lu (ts @ [t]) = Reading s2"
      "wh_triggered s2 = wh_triggered self @ [[]]" "\<not> is_set (wh_measure_evt s2)"
    using dist_fire_run [OF md tv ty quiet b1 a1 np] by blast
  from r1 r2 show ?thesis
    unfolding armed by (simp add: l_measure_dist)
qed

theorem dist_fires_when_total_exceeds_witness:
  "\<exists>s1 s2.
     Wheel_record (l_measure
        \<lparr>wh_fs = 20, wh_update_dur = 1 / 20, wh_thresh = 100, wh_thresh_val = Acc 0,
          wh_thresh_type = ''dist'', wh_mode = ''vel_total'', wh_integrate_dur = 3,
          wh_quit_evt = \<lparr>flag = True\<rparr>, wh_measure_evt = \<lparr>flag = False\<rparr>,
          wh_gpio_trig = False, wh_pins = [], wh_triggered = [], wh_sent = []\<rparr>
        (Some ''dist'') (Some 50)) [] 0
       [\<lparr>tk_msgs = [], tk_events = [\<lparr>ev_state = 30, ev_code = ''REL_X'', ev_timestamp = 0\<rparr>], tk_now = 1 / 100\<rparr>,
        \<lparr>tk_msgs = [], tk_events = [\<lparr>ev_state = 20, ev_code = ''REL_X'', ev_timestamp = 0\<rparr>], tk_now = 2 / 100\<rparr>] = Reading s1
     \<and> wh_triggered s1 = [] \<and> is_set (wh_measure_evt s1)
     \<and> Wheel_record (l_measure
        \<lparr>wh_fs = 20, wh_update_dur = 1 / 20, wh_thresh = 100, wh_thresh_val = Acc 0,
          wh_thresh_type = ''dist'', wh_mode = ''vel_total'', wh_integrate_dur = 3,
          wh_quit_evt = \<lparr>flag = True\<rparr>, wh_measure_evt = \<lparr>flag = False\<rparr>,
          wh_gpio_trig = False, wh_pins = [], wh_triggered = [], wh_sent = []\<rparr>
        (Some ''dist'') (Some 50)) [] 0
       ([\<lparr>tk_msgs = [], tk_events = [\<lparr>ev_state = 30, ev_code = ''REL_X'', ev_timestamp = 0\<rparr>], tk_now = 1 / 100\<rparr>,
        \<lparr>tk_msgs = [], tk_events = [\<lparr>ev_state = 20, ev_code = ''REL_X'', ev_timestamp = 0\<rparr>], tk_now = 2 / 100\<rparr>] @
        [\<lparr>tk_msgs = [], tk_events = [\<lparr>ev_state = 1, ev_code = ''REL_X'', ev_timestamp = 0\<rparr>], tk_now = 3 / 100\<rparr>]) = Reading s2
     \<and> wh_triggered s2 = [] @ [[]] \<and> \<not> is_set (wh_measure_evt s2)"
proof -
  let ?w0 = "\<lparr>wh_fs = 20, wh_update_dur = 1 / 20, wh_thresh = 100, wh_thresh_val = Acc 0,
          wh_thresh_type = ''dist'', wh_mode = ''vel_total'', wh_integrate_dur = 3,
          wh_quit_evt = \<lparr>flag = True\<rparr>, wh_measure_evt = \<lparr>flag = False\<rparr>,
          wh_gpio_trig = False, wh_pins = [], wh_triggered = [], wh_sent = []\<rparr>"
  let ?ts = "[\<lparr>tk_msgs = [], tk_events = [\<lparr>ev_state = 30, ev_code = ''REL_X'', ev_timestamp = 0\<rparr>], tk_now = 1 / 100\<rparr>,
        \<lparr>tk_msgs = [], tk_events = [\<lparr>ev_state = 20, ev_code = ''REL_X'', ev_timestamp = 0\<rparr>], tk_now = 2 / 100\<rparr>]"
  let ?t = "\<lparr>tk_msgs = [], tk_events = [\<lparr>ev_state = 1, ev_code = ''REL_X'', ev_timestamp = 0\<rparr>], tk_now = 3 / 100\<rparr>"
  let ?self = "l_measure ?w0 (Some ''dist'') (Some 50)"
  have bms: "batch_metric ?self (?ts ! 0) = 30" "batch_metric ?self (?ts ! 1) = 20"
    "batch_metric ?self ?t = 1"
    by (simp_all add: batch_metric_def wheel_eval)
  have fls: "fl 30 = 30" "fl 50 = 50" "fl 51 = 51"
    by (simp_all add: fl_def binade_def binade_up.simps round_even_def pow2_def Let_def)
  have below: "\<forall>k \<le> length ?ts. acc_total ?self 0 (take k ?ts) \<le> 50"
  proof (intro allI impI)
    fix k assume "k \<le> length ?ts"
    then have "k = 0 \<or> k = 1 \<or> k = 2" by auto
    then show "acc_total ?self 0 (take k ?ts) \<le> 50"
      using bms fls by (auto simp: acc_total_def)
  qed
  have above: "acc_total ?self 0 (?ts @ [?t]) > 50"
    using bms fls by (simp add: acc_total_def)
  have small: "\<forall>t \<in> set (?ts @ [?t]). small_batch t"
    by (simp add: small_batch_def to_moves_def sum_vel_def)
  have "\<exists>s1 s2. Wheel_record ?self [] 0 ?ts = Reading s1
        \<and> wh_triggered s1 = wh_triggered ?w0 \<and> is_set (wh_measure_evt s1)
        \<and> Wheel_record ?self [] 0 (?ts @ [?t]) = Reading s2
        \<and> wh_triggered s2 = wh_triggered ?w0 @ [[]]
        \<and> \<not> is_set (wh_measure_evt s2)"
  proof (rule dist_fires_when_total_exceeds [OF refl _ _ _ small below above])
    show "wh_thresh_type ?w0 = ''x'' \<or> wh_thresh_type ?w0 = ''y''
        \<or> wh_thresh_type ?w0 = ''dist''" by simp
    show "\<not> wh_gpio_trig ?w0 \<or> wh_pins ?w0 = []" by simp
    show "\<forall>t \<in> set (?ts @ [?t]). tk_msgs t = []" by simp
  qed
  then show ?thesis
    by simp
qed

text \<open>
  A running total that reaches 50 and does not exceed it fires nothing: after the batches
  30 and 20 the accumulator is 50, nothing was triggered and the Wheel is still armed.
\<close>

theorem dist_total_equal_counterexample:
  "Wheel_record
     \<lparr>wh_fs = 20, wh_update_dur = 1 / 20, wh_thresh = 100, wh_thresh_val = Acc 0,
          wh_thresh_type = ''dist'', wh_mode = ''vel_total'', wh_integrate_dur = 3,
          wh_quit_evt = \<lparr>flag = True\<rparr>, wh_measure_evt = \<lparr>flag = False\<rparr>,
          wh_gpio_trig = False, wh_pins = [], wh_triggered = [], wh_sent = []\<rparr> [] 0
     [\<lparr>tk_msgs = [MEASURE (Some ''dist'') (Some 50)], tk_events = [\<lparr>ev_state = 30, ev_code = ''REL_X'', ev_timestamp = 0\<rparr>], tk_now = 1 / 100\<rparr>,
      \<lparr>tk_msgs = [], tk_events = [\<lparr>ev_state = 20, ev_code = ''REL_X'', ev_timestamp = 0\<rparr>], tk_now = 2 / 100\<rparr>] =
   Reading
     \<lparr>wh_fs = 20, wh_update_dur = 1 / 20, wh_thresh = 50, wh_thresh_val = Acc 50,
          wh_thresh_type = ''dist'', wh_mode = ''dist'', wh_integrate_dur = 3,
          wh_quit_evt = \<lparr>flag = True\<rparr>, wh_measure_evt = \<lparr>flag = True\<rparr>,
          wh_gpio_trig = False, wh_pins = [], wh_triggered = [], wh_sent = []\<rparr>"
  by (simp add: wheel_eval)

end
